theory Spec2Isabelle
  imports Main "HOL-Library.Word" "HOL-Library.AList"
begin

section \<open>Data model of server.go\<close>

text \<open>
  A Go \<open>[]byte\<close> is a list of 8-bit words, a Go \<open>string\<close> a list of 8-bit characters.
  A nil slice and an empty slice are both the empty list, except for the result of a
  scan, where the source's JSON output tells them apart (\<open>null\<close> against \<open>[]\<close>).
\<close>

type_synonym bytes = "8 word list"

text \<open>The session of the AWS SDK is opaque to server.go: a region and an endpoint.\<close>

datatype Session = Session string string

record Server =
  Name :: string
  ASess :: Session
  tableName :: string
  name :: string
  status :: string
  active :: bool
  index :: bytes

record Item =
  Index :: bytes
  Name :: string
  Users :: "string list"
  Active :: bool

text \<open>\<open>Item{}\<close>, the zero value of the struct.\<close>

definition zero_Item :: Item where
  "zero_Item = \<lparr>Index = [], Name = [], Users = [], Active = False\<rparr>"

text \<open>
  The errors that reach server.go: from encoding/base64 (through encoding/json), from
  encoding/json, from the expression builder and from the DynamoDB service.
  \<open>RequestError\<close> stands for any transport failure of a service call.
\<close>

datatype error =
    CorruptInputError
  | UnmarshalTypeError
  | UnsetParameterError
  | ResourceNotFoundException
  | ValidationException
  | RequestError

section \<open>encoding/base64 and encoding/json, as far as server.go uses them\<close>

text \<open>
  \<open>base64.StdEncoding\<close>: the alphabet \<open>A-Z a-z 0-9 + /\<close>, padding \<open>=\<close>, not strict.
  \<open>decodeMap\<close> is Go's table of the same name, \<open>None\<close> for its entry \<open>0xff\<close>.
\<close>

definition decodeMap :: "char \<Rightarrow> nat option" where
  "decodeMap c =
     (let n = (of_char c :: nat) in
      if 65 \<le> n \<and> n \<le> 90 then Some (n - 65)
      else if 97 \<le> n \<and> n \<le> 122 then Some (n - 71)
      else if 48 \<le> n \<and> n \<le> 57 then Some (n + 4)
      else if n = 43 then Some 62
      else if n = 47 then Some 63
      else None)"

definition newline :: "char \<Rightarrow> bool" where
  "newline c = (c = CHR 0x0A \<or> c = CHR 0x0D)"

text \<open>
  The end of \<open>decodeQuantum\<close>: the 6-bit values of one quantum are packed into 24 bits
  (\<open>dbuf[0]<<18 | dbuf[1]<<12 | dbuf[2]<<6 | dbuf[3]\<close>, the values are below 64, so the
  bitwise or is a sum) and the first \<open>dlen - 1\<close> bytes of the 24 bits are the output;
  \<open>byte(...)\<close> truncates, as \<open>of_nat\<close> into \<open>8 word\<close> does. Bits left over in a short
  quantum are dropped (the encoding is not strict).
\<close>

definition val24 :: "nat \<Rightarrow> nat \<Rightarrow> nat \<Rightarrow> nat \<Rightarrow> nat" where
  "val24 a b c d = a * 262144 + b * 4096 + c * 64 + d"

fun convert :: "nat list \<Rightarrow> bytes" where
  "convert [a, b, c, d] =
     [of_nat (val24 a b c d div 65536), of_nat (val24 a b c d div 256), of_nat (val24 a b c d)]"
| "convert [a, b, c] =
     [of_nat (val24 a b c 0 div 65536), of_nat (val24 a b c 0 div 256)]"
| "convert [a, b] = [of_nat (val24 a b 0 0 div 65536)]"
| "convert _ = []"

definition prepend :: "bytes \<Rightarrow> error + bytes \<Rightarrow> error + bytes" where
  "prepend bs r = (case r of Inl e \<Rightarrow> Inl e | Inr cs \<Rightarrow> Inr (bs @ cs))"

text \<open>
  \<open>Encoding.Decode\<close> with its loop over \<open>decodeQuantum\<close>; \<open>dbuf\<close> holds the values read
  so far in the current quantum (its length is the source's \<open>j\<close>). Carriage returns and
  line feeds are skipped everywhere. Input that ends inside a quantum, a character
  outside the alphabet, padding in the first two places of a quantum, a single \<open>=\<close>
  where two are due and anything but newlines after the padding are all
  \<open>CorruptInputError\<close> (the offset it carries in Go is left out).
\<close>

fun decode_from :: "nat list \<Rightarrow> string \<Rightarrow> error + bytes" where
  "decode_from dbuf [] = (if dbuf = [] then Inr [] else Inl CorruptInputError)"
| "decode_from dbuf (c # src) =
     (case decodeMap c of
        Some out \<Rightarrow>
          (if length dbuf = 3 then prepend (convert (dbuf @ [out])) (decode_from [] src)
           else decode_from (dbuf @ [out]) src)
      | None \<Rightarrow>
          if newline c then decode_from dbuf src
          else if c \<noteq> CHR ''='' then Inl CorruptInputError
          else if length dbuf < 2 then Inl CorruptInputError
          else if length dbuf = 2 then
            (case dropWhile newline src of
               [] \<Rightarrow> Inl CorruptInputError
             | p # rest \<Rightarrow>
                 if p \<noteq> CHR ''='' then Inl CorruptInputError
                 else if dropWhile newline rest \<noteq> [] then Inl CorruptInputError
                 else Inr (convert dbuf))
          else if dropWhile newline src \<noteq> [] then Inl CorruptInputError
          else Inr (convert dbuf))"

definition base64_Decode :: "string \<Rightarrow> error + bytes" where
  "base64_Decode src = decode_from [] src"

text \<open>
  A JSON text is represented by the Go value it was marshalled from: the text that
  encoding/json writes for a string, for an \<open>Item\<close> and for a slice of \<open>Item\<close> (\<open>None\<close> is
  the nil slice, written \<open>null\<close>). Marshalling these types cannot fail; the result is
  a sum all the same, so that the error branches of the source stay branches of the model.

  \<open>json.Marshal\<close> of a string replaces bytes that are not valid UTF-8 by U+FFFD; the
  model keeps them. Both are bytes from \<open>0x80\<close> on, which \<open>decodeMap\<close> rejects, so
  the result of decoding is the same.
\<close>

datatype json = JSON_string string | JSON_Item Item | JSON_Items "Item list option"

definition json_Marshal :: "string \<Rightarrow> error + json" where
  "json_Marshal v = Inr (JSON_string v)"

definition json_MarshalIndent_Item :: "Item \<Rightarrow> error + json" where
  "json_MarshalIndent_Item v = Inr (JSON_Item v)"

definition json_MarshalIndent_Items :: "Item list option \<Rightarrow> error + json" where
  "json_MarshalIndent_Items v = Inr (JSON_Items v)"

text \<open>
  \<open>json.Unmarshal(data, &indexByte)\<close> with \<open>indexByte\<close> a \<open>[]byte\<close>: a JSON string is
  decoded as base64 (\<open>base64.StdEncoding\<close>), \<open>null\<close> and the empty array leave the
  slice empty, an object is a type error.
\<close>

fun json_Unmarshal_bytes :: "json \<Rightarrow> error + bytes" where
  "json_Unmarshal_bytes (JSON_string v) = base64_Decode v"
| "json_Unmarshal_bytes (JSON_Items None) = Inr []"
| "json_Unmarshal_bytes (JSON_Items (Some [])) = Inr []"
| "json_Unmarshal_bytes _ = Inl UnmarshalTypeError"

section \<open>The DynamoDB client of the AWS SDK\<close>

text \<open>
  The attribute values server.go uses, and the condition of the expression builder.
  \<open>Equal a v\<close> is \<open>expression.Name(a).Equal(expression.Value(v))\<close>, \<open>And\<close> is the
  method \<open>And\<close>, \<open>UnsetCondition\<close> the zero \<open>ConditionBuilder\<close>. A built expression
  (text with placeholders, names and values) is represented by the condition and the
  projection it stands for.
\<close>

datatype AttributeValue = B bytes | BOOL bool | S string

datatype ConditionBuilder =
    UnsetCondition
  | Equal string AttributeValue
  | And ConditionBuilder ConditionBuilder

record Expression =
  Filter :: "ConditionBuilder option"
  Projection :: "string list option"

fun unset :: "ConditionBuilder \<Rightarrow> bool" where
  "unset UnsetCondition = True"
| "unset (Equal a v) = False"
| "unset (And c d) = (unset c \<or> unset d)"

text \<open>
  \<open>expression.NewBuilder().WithFilter(filt).WithProjection(proj).Build()\<close>: an unset
  condition is an error, and the expression returned with it is the zero \<open>Expression\<close>.
\<close>

definition Build :: "ConditionBuilder \<Rightarrow> string list \<Rightarrow> Expression \<times> error option" where
  "Build filt proj =
     (if unset filt then (\<lparr>Filter = None, Projection = None\<rparr>, Some UnsetParameterError)
      else (\<lparr>Filter = Some filt, Projection = Some proj\<rparr>, None))"

record ScanInput =
  TableName :: string
  FilterExpression :: "ConditionBuilder option"
  ProjectionExpression :: "string list option"

record ScanOutput =
  Items :: "Item list"

record GetItemInput =
  TableName :: string
  Key :: "(string \<times> AttributeValue) list"

record GetItemOutput =
  Item :: "Item option"

record UpdateItemInput =
  TableName :: string
  Key :: "(string \<times> AttributeValue) list"
  ExpressionAttributeValues :: "(string \<times> AttributeValue) list"
  UpdateExpression :: string
  ReturnValues :: string

record UpdateItemOutput =
  Attributes :: "Item option"

datatype call =
    ScanCall ScanInput
  | GetItemCall GetItemInput
  | UpdateItemCall UpdateItemInput

text \<open>
  The service behind the client. \<open>tables\<close> maps a table name to its rows, in the order
  a scan returns them; every table has the binary partition key \<open>index\<close>, and its rows
  have the attributes of \<open>Item\<close>, so that dynamodbattribute decodes each row into the
  \<open>Item\<close> that stands for it here. \<open>faults\<close> is the schedule of transport failures:
  its head decides the next call, \<open>None\<close> or an exhausted schedule lets the call
  through. \<open>calls\<close> records every call the client makes, failed or not.
\<close>

record DynamoDB =
  tables :: "(string \<times> Item list) list"
  faults :: "error option list"
  calls :: "call list"

definition next_fault :: "DynamoDB \<Rightarrow> error option \<times> DynamoDB" where
  "next_fault c = (case faults c of [] \<Rightarrow> (None, c) | f # fs \<Rightarrow> (f, c\<lparr>faults := fs\<rparr>))"

definition attribute :: "Item \<Rightarrow> string \<Rightarrow> AttributeValue option" where
  "attribute it a =
     (if a = ''index'' then Some (B (Index it))
      else if a = ''name'' then Some (S (Item.Name it))
      else if a = ''active'' then Some (BOOL (Active it))
      else None)"

fun holds :: "ConditionBuilder \<Rightarrow> Item \<Rightarrow> bool" where
  "holds UnsetCondition it = False"
| "holds (Equal a v) it = (attribute it a = Some v)"
| "holds (And c d) it = (holds c it \<and> holds d it)"

definition matches :: "ConditionBuilder option \<Rightarrow> Item \<Rightarrow> bool" where
  "matches f it = (case f of None \<Rightarrow> True | Some c \<Rightarrow> holds c it)"

definition project :: "string list option \<Rightarrow> Item \<Rightarrow> Item" where
  "project p it =
     (case p of
        None \<Rightarrow> it
      | Some ns \<Rightarrow>
          \<lparr>Index = (if ''index'' \<in> set ns then Index it else []),
           Name = (if ''name'' \<in> set ns then Item.Name it else []),
           Users = (if ''users'' \<in> set ns then Users it else []),
           Active = (if ''active'' \<in> set ns then Active it else False)\<rparr>)"

text \<open>
  The SDK returns its output struct with every call, also with an error (then without
  rows), so \<open>result.Items\<close> and \<open>result.Item\<close> in server.go never dereference nil.
\<close>

definition Scan :: "DynamoDB \<Rightarrow> ScanInput \<Rightarrow> (ScanOutput \<times> error option) \<times> DynamoDB" where
  "Scan c input =
     (let (fault, c1) = next_fault (c\<lparr>calls := calls c @ [ScanCall input]\<rparr>) in
      case fault of
        Some e \<Rightarrow> ((\<lparr>Items = []\<rparr>, Some e), c1)
      | None \<Rightarrow>
          (case map_of (tables c1) (ScanInput.TableName input) of
             None \<Rightarrow> ((\<lparr>Items = []\<rparr>, Some ResourceNotFoundException), c1)
           | Some rows \<Rightarrow>
               ((\<lparr>Items = map (project (ProjectionExpression input))
                              (filter (matches (FilterExpression input)) rows)\<rparr>, None), c1)))"

text \<open>The key of a request: the attribute \<open>index\<close> with a binary value, which may not be empty.\<close>

fun key_of :: "(string \<times> AttributeValue) list \<Rightarrow> bytes option" where
  "key_of [(a, B k)] = (if a = ''index'' \<and> k \<noteq> [] then Some k else None)"
| "key_of _ = None"

definition GetItem :: "DynamoDB \<Rightarrow> GetItemInput \<Rightarrow> (GetItemOutput \<times> error option) \<times> DynamoDB" where
  "GetItem c input =
     (let (fault, c1) = next_fault (c\<lparr>calls := calls c @ [GetItemCall input]\<rparr>) in
      case fault of
        Some e \<Rightarrow> ((\<lparr>Item = None\<rparr>, Some e), c1)
      | None \<Rightarrow>
          (case map_of (tables c1) (GetItemInput.TableName input) of
             None \<Rightarrow> ((\<lparr>Item = None\<rparr>, Some ResourceNotFoundException), c1)
           | Some rows \<Rightarrow>
               (case key_of (GetItemInput.Key input) of
                  None \<Rightarrow> ((\<lparr>Item = None\<rparr>, Some ValidationException), c1)
                | Some k \<Rightarrow> ((\<lparr>Item = find (\<lambda>it. Index it = k) rows\<rparr>, None), c1))))"

text \<open>
  The one update server.go asks for, \<open>set active = :active\<close> with a boolean value. As
  in DynamoDB, updating a key that has no row adds the row.
\<close>

definition set_active :: "UpdateItemInput \<Rightarrow> bool option" where
  "set_active input =
     (if UpdateExpression input = ''set active = :active'' then
        (case map_of (ExpressionAttributeValues input) '':active'' of
           Some (BOOL b) \<Rightarrow> Some b
         | _ \<Rightarrow> None)
      else None)"

definition update_rows :: "bytes \<Rightarrow> bool \<Rightarrow> Item list \<Rightarrow> Item list" where
  "update_rows k b rows =
     (if k \<in> set (map Index rows)
      then map (\<lambda>it. if Index it = k then it\<lparr>Active := b\<rparr> else it) rows
      else rows @ [zero_Item\<lparr>Index := k, Active := b\<rparr>])"

definition UpdateItem ::
  "DynamoDB \<Rightarrow> UpdateItemInput \<Rightarrow> (UpdateItemOutput \<times> error option) \<times> DynamoDB" where
  "UpdateItem c input =
     (let (fault, c1) = next_fault (c\<lparr>calls := calls c @ [UpdateItemCall input]\<rparr>) in
      case fault of
        Some e \<Rightarrow> ((\<lparr>Attributes = None\<rparr>, Some e), c1)
      | None \<Rightarrow>
          (case map_of (tables c1) (UpdateItemInput.TableName input) of
             None \<Rightarrow> ((\<lparr>Attributes = None\<rparr>, Some ResourceNotFoundException), c1)
           | Some rows \<Rightarrow>
               (case (key_of (UpdateItemInput.Key input), set_active input) of
                  (Some k, Some b) \<Rightarrow>
                    ((\<lparr>Attributes =
                         (if ReturnValues input = ''ALL_NEW''
                          then find (\<lambda>it. Index it = k) (update_rows k b rows) else None)\<rparr>, None),
                     c1\<lparr>tables :=
                          AList.update (UpdateItemInput.TableName input) (update_rows k b rows)
                            (tables c1)\<rparr>)
                | _ \<Rightarrow> ((\<lparr>Attributes = None\<rparr>, Some ValidationException), c1))))"

text \<open>
  dynamodbattribute: a nil or empty list (map) leaves the target as it is; rows of the
  \<open>Item\<close> schema decode into their \<open>Item\<close>.
\<close>

definition UnmarshalListOfMaps :: "Item list \<Rightarrow> Item list \<Rightarrow> error + Item list" where
  "UnmarshalListOfMaps l out = Inr (if l = [] then out else l)"

definition UnmarshalMap :: "Item option \<Rightarrow> Item \<Rightarrow> error + Item" where
  "UnmarshalMap m out = Inr (case m of None \<Rightarrow> out | Some it \<Rightarrow> it)"

section \<open>net/http, as far as server.go uses it\<close>

text \<open>
  A request: its method, the request target as it was sent (\<open>r.RequestURI\<close>),
  \<open>r.URL.Path\<close> and the pairs of its query string in their order; \<open>Get\<close> is
  \<open>r.URL.Query().Get\<close>, the first value of the key, or the empty string.
\<close>

record Request =
  Method :: string
  RequestURI :: string
  Path :: string
  Query :: "(string \<times> string) list"

definition Get :: "(string \<times> string) list \<Rightarrow> string \<Rightarrow> string" where
  "Get q k = (case map_of q k of None \<Rightarrow> [] | Some v \<Rightarrow> v)"

text \<open>
  What is written to the response: text, and JSON texts (see \<open>json\<close>). The status code
  is fixed by the first \<open>WriteHeader\<close>; a write without one sends 200, and so does a
  handler that returns without writing.
\<close>

datatype chunk = Text string | JSON json

record ResponseWriter =
  header :: "(string \<times> string) list"
  wroteHeader :: "nat option"
  body :: "chunk list"

definition NewResponseWriter :: ResponseWriter where
  "NewResponseWriter = \<lparr>header = [], wroteHeader = None, body = []\<rparr>"

definition WriteHeader :: "ResponseWriter \<Rightarrow> nat \<Rightarrow> ResponseWriter" where
  "WriteHeader w code = (if wroteHeader w = None then w\<lparr>wroteHeader := Some code\<rparr> else w)"

definition Fprint :: "ResponseWriter \<Rightarrow> chunk list \<Rightarrow> ResponseWriter" where
  "Fprint w a = (WriteHeader w 200)\<lparr>body := body w @ a\<rparr>"

definition http_Error :: "ResponseWriter \<Rightarrow> string \<Rightarrow> nat \<Rightarrow> ResponseWriter" where
  "http_Error w err code =
     Fprint
       (WriteHeader
          (w\<lparr>header :=
               AList.update ''X-Content-Type-Options'' ''nosniff''
                 (AList.update ''Content-Type'' ''text/plain; charset=utf-8'' (header w))\<rparr>)
          code)
       [Text (err @ [CHR 0x0A])]"

definition StatusCode :: "ResponseWriter \<Rightarrow> nat" where
  "StatusCode w = (case wroteHeader w of None \<Rightarrow> 200 | Some code \<Rightarrow> code)"

section \<open>server.go\<close>

text \<open>
  The state a handler runs in: the \<open>Server\<close> that main shares between all requests,
  the DynamoDB service behind the client, the response writer of the request and the
  errors logged through logrus (message and error; the diagnostic prints of the
  standard logger are left out). A handler returns, or panics.
\<close>

record world =
  srv :: Server
  ddb :: DynamoDB
  rw :: ResponseWriter
  logrus :: "(string \<times> error) list"

datatype outcome = Returned | Panicked

definition logrus_Error :: "string \<Rightarrow> error \<Rightarrow> world \<Rightarrow> world" where
  "logrus_Error msg e wd = wd\<lparr>logrus := logrus wd @ [(msg, e)]\<rparr>"

definition DynamoDBList :: "world \<Rightarrow> (Item list option \<times> error option) \<times> world" where
  "DynamoDBList wd =
     (let input = \<lparr>ScanInput.TableName = tableName (srv wd),
                   FilterExpression = None, ProjectionExpression = None\<rparr>;
          ((result, err), c) = Scan (ddb wd) input;
          wd1 = wd\<lparr>ddb := c\<rparr>
      in case err of
           Some e \<Rightarrow> ((None, Some e), logrus_Error ''Failed to scan DynamoDB'' e wd1)
         | None \<Rightarrow>
             (case UnmarshalListOfMaps (Items result) [] of
                Inl e \<Rightarrow> ((None, Some e), logrus_Error ''Failed to unmarshal DynamoDB record'' e wd1)
              | Inr obj \<Rightarrow> ((Some obj, None), wd1)))"

definition DynamoDBQuery :: "world \<Rightarrow> (Item list option \<times> error option) \<times> world" where
  "DynamoDBQuery wd =
     (let s0 = srv wd;
          s = (if status s0 \<noteq> [] then
                 (if status s0 = ''active'' then s0\<lparr>active := True\<rparr>
                  else if status s0 = ''inactive'' then s0\<lparr>active := False\<rparr>
                  else s0)
               else s0);
          wd0 = wd\<lparr>srv := s\<rparr>;
          proj = [''index'', ''name'', ''users'', ''active''];
          filt =
            (if name s \<noteq> [] \<and> status s \<noteq> [] then
               And (Equal ''name'' (S (name s))) (Equal ''active'' (BOOL (active s)))
             else if name s \<noteq> [] \<and> status s = [] then Equal ''name'' (S (name s))
             else if name s = [] \<and> status s \<noteq> [] then Equal ''active'' (BOOL (active s))
             else UnsetCondition);
          (expr, err) = Build filt proj;
          wd1 = (case err of
                   Some e \<Rightarrow> logrus_Error ''Got error building expression'' e wd0
                 | None \<Rightarrow> wd0);
          params = \<lparr>ScanInput.TableName = tableName s,
                    FilterExpression = Filter expr, ProjectionExpression = Projection expr\<rparr>;
          ((result, err2), c) = Scan (ddb wd1) params;
          wd2 = wd1\<lparr>ddb := c\<rparr>;
          wd3 = (case err2 of
                   Some e \<Rightarrow> logrus_Error ''Query API call failed'' e wd2
                 | None \<Rightarrow> wd2)
      in case UnmarshalListOfMaps (Items result) [] of
           Inl e \<Rightarrow> ((None, Some e), logrus_Error ''Failed to unmarshal query output'' e wd3)
         | Inr obj \<Rightarrow> ((Some obj, None), wd3))"

definition ListHandler :: "world \<Rightarrow> Request \<Rightarrow> outcome \<times> world" where
  "ListHandler wd r =
     (if Path r \<noteq> ''/list'' then
        (Returned, wd\<lparr>rw := http_Error (rw wd) ''404 not found.'' 404\<rparr>)
      else if Method r \<noteq> ''GET'' then
        (Returned, wd\<lparr>rw := http_Error (rw wd) ''404 not found, method not supported.'' 404\<rparr>)
      else
        let s1 = (srv wd)\<lparr>tableName := [], name := [], status := [], active := False\<rparr>;
            param1 = Get (Query r) ''tableName'';
            s2 = s1\<lparr>tableName := param1\<rparr>;
            param2 = Get (Query r) ''name'';
            s3 = (if param2 \<noteq> [] then s2\<lparr>name := param2\<rparr> else s2);
            param3 = Get (Query r) ''status'';
            s4 = (if param3 = ''active'' \<or> param3 = ''inactive''
                  then s3\<lparr>status := param3\<rparr> else s3);
            wd1 = wd\<lparr>srv := s4\<rparr>;
            ((resp, _), wd2) =
              (if name s4 \<noteq> [] \<or> status s4 \<noteq> [] then DynamoDBQuery wd1
               else DynamoDBList wd1)
        in case json_MarshalIndent_Items resp of
             Inl err \<Rightarrow> (Returned, logrus_Error ''Got error marshalling list response'' err wd2)
           | Inr respJSON \<Rightarrow> (Returned, wd2\<lparr>rw := Fprint (rw wd2) [JSON respJSON]\<rparr>))"

definition DynamoDBGetItem :: "world \<Rightarrow> Item \<times> world" where
  "DynamoDBGetItem wd =
     (let ((result, err), c) =
            GetItem (ddb wd)
              \<lparr>GetItemInput.TableName = tableName (srv wd),
               Key = [(''index'', B (index (srv wd)))]\<rparr>;
          wd1 = wd\<lparr>ddb := c\<rparr>;
          wd2 = (case err of
                   Some e \<Rightarrow> logrus_Error ''Failed to call DynamoDBGetItem'' e wd1
                 | None \<Rightarrow> wd1)
      in case UnmarshalMap (Item result) zero_Item of
           Inl e \<Rightarrow> (zero_Item, logrus_Error ''Failed to unmarshal GetItem response'' e wd2)
         | Inr item \<Rightarrow> (item, wd2))"

definition DynamoDBDeactivate :: "world \<Rightarrow> Item \<times> world" where
  "DynamoDBDeactivate wd =
     (let input = \<lparr>UpdateItemInput.TableName = tableName (srv wd),
                   Key = [(''index'', B (index (srv wd)))],
                   ExpressionAttributeValues = [('':active'', BOOL False)],
                   UpdateExpression = ''set active = :active'',
                   ReturnValues = ''ALL_NEW''\<rparr>;
          ((resp, err), c) = UpdateItem (ddb wd) input;
          wd1 = wd\<lparr>ddb := c\<rparr>
      in case err of
           Some e \<Rightarrow> (zero_Item, logrus_Error ''Failed to call UpdateItem'' e wd1)
         | None \<Rightarrow>
             (case UnmarshalMap (Attributes resp) zero_Item of
                Inl e \<Rightarrow> (zero_Item, logrus_Error ''Failed to unmarshal in DynamoDBDeactivate'' e wd1)
              | Inr result \<Rightarrow> (result, wd1)))"

definition already_inactive :: string where
  "already_inactive =
     ''The deactivate request failed: Specified entry is already inactive '' @ [CHR 0x0A]"

definition deactivated :: string where
  "deactivated =
     ''Successfully deactivated the specified entry, setting active status to false: ''
       @ [CHR 0x0A]"

text \<open>
  Where \<open>json.Unmarshal\<close> fails (\<open>err6\<close>), the source logs \<open>err.Error()\<close>: \<open>err\<close> is the
  error of \<open>json.Marshal\<close>, which is nil on this path, and calling \<open>Error\<close> on the nil
  interface panics.
\<close>

definition DeactivateHandler :: "world \<Rightarrow> Request \<Rightarrow> outcome \<times> world" where
  "DeactivateHandler wd r =
     (if Path r \<noteq> ''/deactivate'' then
        (Returned, wd\<lparr>rw := http_Error (rw wd) ''404 not found.'' 404\<rparr>)
      else if Method r \<noteq> ''POST'' then
        (Returned, wd\<lparr>rw := http_Error (rw wd) ''404 not found, method not supported.'' 404\<rparr>)
      else
        let s1 = (srv wd)\<lparr>tableName := [], index := []\<rparr>;
            param1 = Get (Query r) ''tableName'';
            wd1 = wd\<lparr>srv := s1\<lparr>tableName := param1\<rparr>\<rparr>;
            param2 = Get (Query r) ''index''
        in if param2 \<noteq> [] then
             (case json_Marshal param2 of
                Inl err \<Rightarrow> (Returned, logrus_Error ''Failed to marshal index param'' err wd1)
              | Inr indexJson \<Rightarrow>
                  let err = (None :: error option) in
                  (case json_Unmarshal_bytes indexJson of
                     Inl err6 \<Rightarrow>
                       (case err of
                          None \<Rightarrow> (Panicked, wd1)
                        | Some e \<Rightarrow>
                            (Returned, logrus_Error ''Failed to unmarshal index param'' e wd1))
                   | Inr indexByte \<Rightarrow>
                       let wd2 = wd1\<lparr>srv := (srv wd1)\<lparr>index := indexByte\<rparr>\<rparr>;
                           (currEntry, wd3) = DynamoDBGetItem wd2
                       in if \<not> Active currEntry then
                            (case json_MarshalIndent_Item currEntry of
                               Inl e \<Rightarrow>
                                 (Returned, logrus_Error ''Failed to marshal in DynamoDBGetItem'' e wd3)
                             | Inr currEntryJSON \<Rightarrow>
                                 (Returned,
                                  wd3\<lparr>rw := Fprint (rw wd3)
                                         [Text already_inactive, JSON currEntryJSON]\<rparr>))
                          else
                            let (resp, wd4) = DynamoDBDeactivate wd3 in
                            (case json_MarshalIndent_Item resp of
                               Inl e \<Rightarrow>
                                 (Returned,
                                  logrus_Error
                                    ''Failed to marshal output for the deactivate entry'' e wd4)
                             | Inr respJSON \<Rightarrow>
                                 (Returned,
                                  wd4\<lparr>rw := Fprint (rw wd4) [Text deactivated, JSON respJSON]\<rparr>))))
           else (Returned, wd1))"

text \<open>
  \<open>path.Clean\<close> on a rooted path, as the mux uses it: the path is split at its slashes;
  empty elements and \<open>.\<close> are dropped, \<open>..\<close> drops the element before it (at the root
  it is dropped itself), and the elements left are joined again, each after a slash.
  \<open>cleanPath\<close> is the function of that name in net/http: it makes the path rooted,
  cleans it and puts back a trailing slash.
\<close>

fun split_slash :: "string \<Rightarrow> string \<Rightarrow> string list" where
  "split_slash el [] = [el]"
| "split_slash el (c # cs) =
     (if c = CHR ''/'' then el # split_slash [] cs else split_slash (el @ [c]) cs)"

fun clean_elements :: "string list \<Rightarrow> string list \<Rightarrow> string list" where
  "clean_elements out [] = out"
| "clean_elements out (el # els) =
     (if el = [] \<or> el = ''.'' then clean_elements out els
      else if el = ''..'' then clean_elements (butlast out) els
      else clean_elements (out @ [el]) els)"

fun join_slash :: "string list \<Rightarrow> string" where
  "join_slash [] = []"
| "join_slash (el # els) = CHR ''/'' # el @ join_slash els"

definition Clean :: "string \<Rightarrow> string" where
  "Clean p =
     (case clean_elements [] (split_slash [] p) of
        [] \<Rightarrow> ''/''
      | el # els \<Rightarrow> join_slash (el # els))"

definition cleanPath :: "string \<Rightarrow> string" where
  "cleanPath p =
     (case p of
        [] \<Rightarrow> ''/''
      | c # cs \<Rightarrow>
          let p1 = (if c \<noteq> CHR ''/'' then CHR ''/'' # p else p); np = Clean p1 in
          if last p1 = CHR ''/'' \<and> np \<noteq> ''/'' then np @ ''/'' else np)"

text \<open>
  \<open>http.NotFound\<close>, and the handler that \<open>RedirectHandler(url, StatusMovedPermanently)\<close>
  returns: it sets the location, for a GET or HEAD the content type, and the status
  301. (Go writes the location escaped and followed by the query string of the request,
  and for a GET adds a one-line HTML note with the same link to the body; the model
  keeps the cleaned path as the location and leaves the note out.)
\<close>

definition NotFound :: "ResponseWriter \<Rightarrow> ResponseWriter" where
  "NotFound w = http_Error w ''404 page not found'' 404"

definition RedirectHandler :: "string \<Rightarrow> ResponseWriter \<Rightarrow> Request \<Rightarrow> ResponseWriter" where
  "RedirectHandler url w r =
     WriteHeader
       (w\<lparr>header :=
            (if map_of (header w) ''Content-Type'' = None \<and> (Method r = ''GET'' \<or> Method r = ''HEAD'')
             then AList.update ''Content-Type'' ''text/html; charset=utf-8''
                    (AList.update ''Location'' url (header w))
             else AList.update ''Location'' url (header w))\<rparr>)
       301"

text \<open>
  main registers the two handlers on the default mux under the patterns \<open>/list\<close> and
  \<open>/deactivate\<close> and serves with it (\<open>ListenAndServe\<close> with a nil handler). A pattern
  without a trailing slash matches that path only, and the mux answers a path
  without pattern with \<open>http.NotFound\<close>: this is \<open>handler\<close>.

  \<open>serve\<close> is \<open>ServeMux.Handler\<close> followed by the call of the handler found, with the new
  response writer of the request: unless the method is CONNECT, a path that differs
  from its cleaned form is answered with a redirect to the cleaned path, and only a
  path in that form is looked up. \<open>ServeHTTP\<close> is \<open>ServeMux.ServeHTTP\<close>: the request
  target \<open>*\<close> is answered with status 400 (for HTTP/1.1 with \<open>Connection: close\<close>),
  every other request goes to \<open>serve\<close>. The server, the service and the log go on from
  one request to the next.
\<close>

definition handler :: "string \<Rightarrow> world \<Rightarrow> Request \<Rightarrow> outcome \<times> world" where
  "handler p wd r =
     (if p = ''/list'' then ListHandler wd r
      else if p = ''/deactivate'' then DeactivateHandler wd r
      else (Returned, wd\<lparr>rw := NotFound (rw wd)\<rparr>))"

definition serve :: "world \<Rightarrow> Request \<Rightarrow> outcome \<times> world" where
  "serve wd r =
     (let wd0 = wd\<lparr>rw := NewResponseWriter\<rparr> in
      if Method r = ''CONNECT'' then handler (Path r) wd0 r
      else if cleanPath (Path r) \<noteq> Path r then
        (Returned, wd0\<lparr>rw := RedirectHandler (cleanPath (Path r)) (rw wd0) r\<rparr>)
      else handler (Path r) wd0 r)"

definition ServeHTTP :: "world \<Rightarrow> Request \<Rightarrow> outcome \<times> world" where
  "ServeHTTP wd r =
     (if RequestURI r = ''*'' then
        (Returned,
         wd\<lparr>rw := WriteHeader (NewResponseWriter\<lparr>header := [(''Connection'', ''close'')]\<rparr>) 400\<rparr>)
      else serve wd r)"

section \<open>Notions used in the statements\<close>

text \<open>
  The row that a table of the service holds under a key, and the error with which the
  next call on a table fails (a scheduled fault, or a table that does not exist).
\<close>

definition stored :: "DynamoDB \<Rightarrow> string \<Rightarrow> bytes \<Rightarrow> Item option" where
  "stored c tn k =
     (case map_of (tables c) tn of None \<Rightarrow> None | Some rows \<Rightarrow> find (\<lambda>it. Index it = k) rows)"

definition service_error :: "DynamoDB \<Rightarrow> string \<Rightarrow> error option" where
  "service_error c tn =
     (case fst (next_fault c) of
        Some e \<Rightarrow> Some e
      | None \<Rightarrow> (case map_of (tables c) tn of None \<Rightarrow> Some ResourceNotFoundException | Some rows \<Rightarrow> None))"

text \<open>
  The query builder as the specification describes it (section 4.2). A name is present
  when the parameter is not empty; a status is present when it is exactly \<open>active\<close> or
  \<open>inactive\<close>, any other value counts as absent. Both present: \<open>name == name AND
  active == (status == "active")\<close>; only the name: \<open>name == name\<close>; only the status:
  \<open>active == (status == "active")\<close>; neither: no predicate. \<open>spec_scan\<close> is the scan of
  section 4.3: with a predicate, a filtered scan with the projection on the four
  attributes; without one, the scan of the whole table.
\<close>

definition valid_status :: "string \<Rightarrow> bool" where
  "valid_status st = (st = ''active'' \<or> st = ''inactive'')"

definition spec_predicate :: "string \<Rightarrow> string \<Rightarrow> ConditionBuilder option" where
  "spec_predicate nm st =
     (if nm \<noteq> [] \<and> valid_status st then
        Some (And (Equal ''name'' (S nm)) (Equal ''active'' (BOOL (st = ''active''))))
      else if nm \<noteq> [] then Some (Equal ''name'' (S nm))
      else if valid_status st then Some (Equal ''active'' (BOOL (st = ''active'')))
      else None)"

definition spec_scan :: "Request \<Rightarrow> ScanInput" where
  "spec_scan r =
     (let p = spec_predicate (Get (Query r) ''name'') (Get (Query r) ''status'') in
      \<lparr>ScanInput.TableName = Get (Query r) ''tableName'',
       FilterExpression = p,
       ProjectionExpression =
         (case p of None \<Rightarrow> None | Some c \<Rightarrow> Some [''index'', ''name'', ''users'', ''active''])\<rparr>)"

text \<open>
  Example values: the table of the scenario in the specification, with row A (key byte
  \<open>0x41\<close>, active) and row B (key byte \<open>0x42\<close>, inactive), the server as main starts it,
  and requests with their target (path and query string) as net/http reads them.
\<close>

definition ex_rowA :: Item where
  "ex_rowA = \<lparr>Index = [65], Name = ''foo'', Users = [], Active = True\<rparr>"
definition ex_rowB :: Item where
  "ex_rowB = \<lparr>Index = [66], Name = ''bar'', Users = [], Active = False\<rparr>"
definition ex_world :: world where
  "ex_world =
     \<lparr>srv = \<lparr>Server.Name = [], ASess = Session ''us-west-2'' ''http://localhost:8000'',
              tableName = [], name = [], status = [], active = False, index = []\<rparr>,
      ddb = \<lparr>tables = [(''T'', [ex_rowA, ex_rowB])], faults = [], calls = []\<rparr>,
      rw = NewResponseWriter,
      logrus = []\<rparr>"
definition ex_target :: "string \<Rightarrow> (string \<times> string) list \<Rightarrow> string" where
  "ex_target p q =
     p @ (if q = [] then []
          else CHR ''?'' # tl (concat (map (\<lambda>(k, v). CHR ''&'' # k @ CHR ''='' # v) q)))"

definition ex_request :: "string \<Rightarrow> string \<Rightarrow> (string \<times> string) list \<Rightarrow> Request" where
  "ex_request m p q = \<lparr>Method = m, RequestURI = ex_target p q, Path = p, Query = q\<rparr>"

definition ex_deactivate :: "string \<Rightarrow> Request" where
  "ex_deactivate i = ex_request ''POST'' ''/deactivate'' [(''tableName'', ''T''), (''index'', i)]"

section \<open>Properties\<close>

subsection \<open>The calls of the client\<close>

lemmas ex_defs = ex_rowA_def ex_rowB_def ex_world_def ex_deactivate_def ex_request_def Get_def stored_def
  next_fault_def base64_Decode_def decodeMap_def newline_def val24_def prepend_def

lemmas run_defs = DeactivateHandler_def DynamoDBGetItem_def GetItem_def DynamoDBDeactivate_def
  UpdateItem_def UnmarshalMap_def json_Marshal_def json_MarshalIndent_Item_def Fprint_def
  WriteHeader_def NewResponseWriter_def logrus_Error_def set_active_def update_rows_def
  zero_Item_def Let_def

lemma cleanPath_registered:
  "cleanPath ''/list'' = ''/list''" "cleanPath ''/deactivate'' = ''/deactivate''"
  by (simp_all add: cleanPath_def Clean_def)

lemma serve_list: "Path r = ''/list'' \<Longrightarrow> serve wd r = ListHandler (wd\<lparr>rw := NewResponseWriter\<rparr>) r"
  by (simp add: serve_def handler_def cleanPath_registered Let_def)

lemma serve_deactivate:
  "Path r = ''/deactivate'' \<Longrightarrow> serve wd r = DeactivateHandler (wd\<lparr>rw := NewResponseWriter\<rparr>) r"
  by (simp add: serve_def handler_def cleanPath_registered Let_def)

lemma next_fault_calls [simp]:
  "next_fault (c\<lparr>calls := x\<rparr>) = (fst (next_fault c), (snd (next_fault c))\<lparr>calls := x\<rparr>)"
  by (simp add: next_fault_def split: list.splits)

lemma next_fault_frame [simp]:
  "tables (snd (next_fault c)) = tables c" "calls (snd (next_fault c)) = calls c"
  "faults (snd (next_fault c)) = tl (faults c)"
  by (simp_all add: next_fault_def split: list.splits)

lemma Scan_calls: "calls (snd (Scan c i)) = calls c @ [ScanCall i]"
  by (simp add: Scan_def split: option.splits prod.splits)

lemma Scan_tables: "tables (snd (Scan c i)) = tables c"
  by (simp add: Scan_def split: option.splits prod.splits)

lemma Scan_error: "snd (fst (Scan c i)) = service_error c (ScanInput.TableName i)"
  by (simp add: Scan_def service_error_def split: option.splits prod.splits)

lemma Scan_error_Items: "snd (fst (Scan c i)) = Some e \<Longrightarrow> Items (fst (fst (Scan c i))) = []"
  by (simp add: Scan_def split: option.splits prod.splits)

lemma GetItem_calls: "calls (snd (GetItem c i)) = calls c @ [GetItemCall i]"
  by (simp add: GetItem_def split: option.splits prod.splits)

lemma GetItem_tables: "tables (snd (GetItem c i)) = tables c"
  by (simp add: GetItem_def split: option.splits prod.splits)

lemma GetItem_faults: "faults (snd (GetItem c i)) = tl (faults c)"
  by (simp add: GetItem_def split: option.splits prod.splits)

lemma GetItem_stored:
  "fst (next_fault c) = None \<Longrightarrow> k \<noteq> [] \<Longrightarrow>
   Item (fst (fst (GetItem c \<lparr>GetItemInput.TableName = tn, Key = [(''index'', B k)]\<rparr>))) = stored c tn k"
  by (simp add: GetItem_def stored_def split: option.splits prod.splits)

lemma GetItem_absent:
  "stored c tn k = None \<Longrightarrow>
   Item (fst (fst (GetItem c \<lparr>GetItemInput.TableName = tn, Key = [(''index'', B k)]\<rparr>))) = None"
  by (simp add: GetItem_def stored_def split: option.splits prod.splits)


lemma DynamoDBGetItem_fst:
  "fst (DynamoDBGetItem wd) =
     (case Item (fst (fst (GetItem (ddb wd)
         \<lparr>GetItemInput.TableName = tableName (srv wd), Key = [(''index'', B (index (srv wd)))]\<rparr>))) of
        None \<Rightarrow> zero_Item | Some it \<Rightarrow> it)"
  by (simp add: DynamoDBGetItem_def UnmarshalMap_def Let_def split: prod.splits option.splits)

lemma DynamoDBGetItem_ddb:
  "ddb (snd (DynamoDBGetItem wd)) =
     snd (GetItem (ddb wd)
       \<lparr>GetItemInput.TableName = tableName (srv wd), Key = [(''index'', B (index (srv wd)))]\<rparr>)"
  by (simp add: DynamoDBGetItem_def UnmarshalMap_def logrus_Error_def Let_def split: prod.splits option.splits)

lemma DynamoDBGetItem_frame:
  "srv (snd (DynamoDBGetItem wd)) = srv wd" "rw (snd (DynamoDBGetItem wd)) = rw wd"
  by (simp_all add: DynamoDBGetItem_def UnmarshalMap_def logrus_Error_def Let_def split: prod.splits option.splits)

lemma base64_Decode_Nil: "base64_Decode [] = Inr []"
  by (simp add: base64_Decode_def)

lemma DeactivateHandler_inactive:
  assumes "Path r = ''/deactivate''" and "Method r = ''POST''"
    and "Get (Query r) ''index'' \<noteq> []"
    and "base64_Decode (Get (Query r) ''index'') = Inr k"
    and "wd2 = wd\<lparr>srv := (srv wd)\<lparr>tableName := Get (Query r) ''tableName'', index := k\<rparr>\<rparr>"
    and "\<not> Active (fst (DynamoDBGetItem wd2))"
  shows "DeactivateHandler wd r =
     (Returned, (snd (DynamoDBGetItem wd2))
        \<lparr>rw := Fprint (rw wd) [Text already_inactive, JSON (JSON_Item (fst (DynamoDBGetItem wd2)))]\<rparr>)"
  using assms
  by (simp add: DeactivateHandler_def json_Marshal_def json_MarshalIndent_Item_def Let_def
      DynamoDBGetItem_frame case_prod_beta)

lemma DeactivateHandler_active:
  assumes "Path r = ''/deactivate''" and "Method r = ''POST''"
    and "Get (Query r) ''index'' \<noteq> []"
    and "base64_Decode (Get (Query r) ''index'') = Inr k"
    and "wd2 = wd\<lparr>srv := (srv wd)\<lparr>tableName := Get (Query r) ''tableName'', index := k\<rparr>\<rparr>"
    and "Active (fst (DynamoDBGetItem wd2))"
    and "wd3 = snd (DynamoDBGetItem wd2)"
  shows "DeactivateHandler wd r =
     (Returned, (snd (DynamoDBDeactivate wd3))
        \<lparr>rw := Fprint (rw (snd (DynamoDBDeactivate wd3)))
                 [Text deactivated, JSON (JSON_Item (fst (DynamoDBDeactivate wd3)))]\<rparr>)"
  using assms
  by (simp add: DeactivateHandler_def json_Marshal_def json_MarshalIndent_Item_def Let_def
      case_prod_beta)


lemma find_update_rows:
  "find (\<lambda>it. Index it = k) (update_rows k b rows) =
     (case find (\<lambda>it. Index it = k) rows of
        None \<Rightarrow> Some (zero_Item\<lparr>Index := k, Active := b\<rparr>)
      | Some it \<Rightarrow> Some (it\<lparr>Active := b\<rparr>))"
proof -
  have absent: "k \<notin> set (map Index xs) \<Longrightarrow> find (\<lambda>it. Index it = k) xs = None" for xs
    by (induction xs) auto
  have added: "k \<notin> set (map Index xs) \<Longrightarrow>
      find (\<lambda>it. Index it = k) (xs @ [zero_Item\<lparr>Index := k, Active := b\<rparr>])
        = Some (zero_Item\<lparr>Index := k, Active := b\<rparr>)" for xs
    by (induction xs) auto
  have present: "find (\<lambda>it. Index it = k) (map (\<lambda>it. if Index it = k then it\<lparr>Active := b\<rparr> else it) xs)
      = map_option (\<lambda>it. it\<lparr>Active := b\<rparr>) (find (\<lambda>it. Index it = k) xs)" for xs
    by (induction xs) auto
  show ?thesis
  proof (cases "k \<in> set (map Index rows)")
    case True
    then have "find (\<lambda>it. Index it = k) rows \<noteq> None"
      by (auto simp: find_None_iff)
    with True show ?thesis
      by (auto simp: update_rows_def present)
  next
    case False
    then show ?thesis
      by (simp add: update_rows_def absent added)
  qed
qed

lemma DynamoDBDeactivate_calls:
  "calls (ddb (snd (DynamoDBDeactivate wd))) =
     calls (ddb wd) @
       [UpdateItemCall
          \<lparr>UpdateItemInput.TableName = tableName (srv wd),
           Key = [(''index'', B (index (srv wd)))],
           ExpressionAttributeValues = [('':active'', BOOL False)],
           UpdateExpression = ''set active = :active'',
           ReturnValues = ''ALL_NEW''\<rparr>]"
  by (simp add: DynamoDBDeactivate_def UpdateItem_def UnmarshalMap_def logrus_Error_def Let_def
      case_prod_beta split: option.splits)

lemma DynamoDBDeactivate_frame:
  "srv (snd (DynamoDBDeactivate wd)) = srv wd" "rw (snd (DynamoDBDeactivate wd)) = rw wd"
  by (simp_all add: DynamoDBDeactivate_def UnmarshalMap_def logrus_Error_def Let_def
      case_prod_beta split: option.splits)

lemma DynamoDBDeactivate_fault:
  "fst (next_fault (ddb wd)) = Some e \<Longrightarrow>
     fst (DynamoDBDeactivate wd) = zero_Item \<and>
     tables (ddb (snd (DynamoDBDeactivate wd))) = tables (ddb wd)"
  by (simp add: DynamoDBDeactivate_def UpdateItem_def logrus_Error_def Let_def case_prod_beta)

lemma DynamoDBDeactivate_stored:
  assumes "fst (next_fault (ddb wd)) = None" and "index (srv wd) \<noteq> []"
    and "map_of (tables (ddb wd)) (tableName (srv wd)) = Some rows"
    and "find (\<lambda>it. Index it = index (srv wd)) rows = Some it"
  shows "fst (DynamoDBDeactivate wd) = it\<lparr>Active := False\<rparr>"
    and "tables (ddb (snd (DynamoDBDeactivate wd))) =
           AList.update (tableName (srv wd)) (update_rows (index (srv wd)) False rows)
             (tables (ddb wd))"
  using assms
  by (simp_all add: DynamoDBDeactivate_def UpdateItem_def UnmarshalMap_def set_active_def
      find_update_rows Let_def case_prod_beta)

lemma not_Active_DynamoDBDeactivate: "\<not> Active (fst (DynamoDBDeactivate wd))"
  by (auto simp: DynamoDBDeactivate_def UpdateItem_def UnmarshalMap_def set_active_def
      find_update_rows zero_Item_def Let_def case_prod_beta split: option.splits)

lemma Fprint_new:
  "body (Fprint NewResponseWriter a) = a" "StatusCode (Fprint NewResponseWriter a) = 200"
  by (simp_all add: Fprint_def NewResponseWriter_def WriteHeader_def StatusCode_def)

subsection \<open>Deactivating an item that is already inactive\<close>

text \<open>
  C4. A deactivate request whose key holds a row with \<open>Active = False\<close>, and whose
  lookup succeeds: the handler returns, the tables of the service are unchanged, the
  only call it makes is the \<open>GetItem\<close> for the key (no update), and the response is the
  fixed "already inactive" message followed by the JSON of the row, with status 200.
\<close>

theorem deactivate_inactive_item:
  assumes "Path r = ''/deactivate''" and "Method r = ''POST''" and "rw wd = NewResponseWriter"
    and "base64_Decode (Get (Query r) ''index'') = Inr k" and "k \<noteq> []"
    and "fst (next_fault (ddb wd)) = None"
    and "stored (ddb wd) (Get (Query r) ''tableName'') k = Some it" and "\<not> Active it"
  shows "fst (DeactivateHandler wd r) = Returned
    \<and> tables (ddb (snd (DeactivateHandler wd r))) = tables (ddb wd)
    \<and> calls (ddb (snd (DeactivateHandler wd r))) =
        calls (ddb wd) @
          [GetItemCall \<lparr>GetItemInput.TableName = Get (Query r) ''tableName'',
                        Key = [(''index'', B k)]\<rparr>]
    \<and> body (rw (snd (DeactivateHandler wd r))) = [Text already_inactive, JSON (JSON_Item it)]
    \<and> StatusCode (rw (snd (DeactivateHandler wd r))) = 200"
proof -
  define wd2 where "wd2 = wd\<lparr>srv := (srv wd)\<lparr>tableName := Get (Query r) ''tableName'', index := k\<rparr>\<rparr>"
  have param: "Get (Query r) ''index'' \<noteq> []"
    using assms(4,5) by (auto simp: base64_Decode_Nil)
  have item: "fst (DynamoDBGetItem wd2) = it"
    using assms(5,6,7) by (simp add: DynamoDBGetItem_fst wd2_def GetItem_stored)
  have "DeactivateHandler wd r =
     (Returned, (snd (DynamoDBGetItem wd2))
        \<lparr>rw := Fprint (rw wd) [Text already_inactive, JSON (JSON_Item (fst (DynamoDBGetItem wd2)))]\<rparr>)"
    using assms(1,2) param assms(4) wd2_def
  proof (rule DeactivateHandler_inactive)
    show "\<not> Active (fst (DynamoDBGetItem wd2))" using item assms(8) by simp
  qed
  then show ?thesis
    using item assms(3)
    by (simp add: DynamoDBGetItem_ddb GetItem_tables GetItem_calls Fprint_new wd2_def)
qed

theorem deactivate_inactive_item_witness:
  "Path (ex_deactivate ''Qg=='') = ''/deactivate'' \<and> Method (ex_deactivate ''Qg=='') = ''POST''
   \<and> base64_Decode (Get (Query (ex_deactivate ''Qg=='')) ''index'') = Inr [66]
   \<and> stored (ddb ex_world) (Get (Query (ex_deactivate ''Qg=='')) ''tableName'') [66] = Some ex_rowB
   \<and> \<not> Active ex_rowB
   \<and> tables (ddb (snd (DeactivateHandler ex_world (ex_deactivate ''Qg=='')))) = tables (ddb ex_world)
   \<and> body (rw (snd (DeactivateHandler ex_world (ex_deactivate ''Qg=='')))) =
        [Text already_inactive, JSON (JSON_Item ex_rowB)]"
proof -
  have h1: "Path (ex_deactivate ''Qg=='') = ''/deactivate''" by (simp add: ex_defs)
  have h2: "Method (ex_deactivate ''Qg=='') = ''POST''" by (simp add: ex_defs)
  have h3: "rw ex_world = NewResponseWriter" by (simp add: ex_defs)
  have h4: "base64_Decode (Get (Query (ex_deactivate ''Qg=='')) ''index'') = Inr [66]"
    by (simp add: ex_defs)
  have h5: "[66 :: 8 word] \<noteq> []" by simp
  have h6: "fst (next_fault (ddb ex_world)) = None" by (simp add: ex_defs)
  have h7: "stored (ddb ex_world) (Get (Query (ex_deactivate ''Qg=='')) ''tableName'') [66] = Some ex_rowB"
    by (simp add: ex_defs)
  have h8: "\<not> Active ex_rowB" by (simp add: ex_defs)
  from deactivate_inactive_item [OF h1 h2 h3 h4 h5 h6 h7 h8] h1 h2 h4 h7 h8
  show ?thesis by blast
qed

subsection \<open>Deactivating an active item\<close>

lemma next_fault_fst: "fst (next_fault c) = (case faults c of [] \<Rightarrow> None | f # fs \<Rightarrow> f)"
  by (simp add: next_fault_def split: list.splits)

lemma DynamoDBDeactivate_faults: "faults (ddb (snd (DynamoDBDeactivate wd))) = tl (faults (ddb wd))"
  by (simp add: DynamoDBDeactivate_def UpdateItem_def UnmarshalMap_def logrus_Error_def Let_def
      case_prod_beta split: option.splits)

text \<open>The result of the handler on the path of an active row.\<close>

lemma DeactivateHandler_active_row:
  assumes "Path r = ''/deactivate''" and "Method r = ''POST''"
    and "base64_Decode (Get (Query r) ''index'') = Inr k" and "k \<noteq> []"
    and "fst (next_fault (ddb wd)) = None"
    and "stored (ddb wd) (Get (Query r) ''tableName'') k = Some it" and "Active it"
    and "wd3 = snd (DynamoDBGetItem
           (wd\<lparr>srv := (srv wd)\<lparr>tableName := Get (Query r) ''tableName'', index := k\<rparr>\<rparr>))"
  shows "DeactivateHandler wd r =
     (Returned, (snd (DynamoDBDeactivate wd3))
        \<lparr>rw := Fprint (rw wd) [Text deactivated, JSON (JSON_Item (fst (DynamoDBDeactivate wd3)))]\<rparr>)"
proof -
  define wd2 where "wd2 = wd\<lparr>srv := (srv wd)\<lparr>tableName := Get (Query r) ''tableName'', index := k\<rparr>\<rparr>"
  have param: "Get (Query r) ''index'' \<noteq> []"
    using assms(3,4) by (auto simp: base64_Decode_Nil)
  have item: "fst (DynamoDBGetItem wd2) = it"
    using assms(4,5,6) by (simp add: DynamoDBGetItem_fst wd2_def GetItem_stored)
  have wd3: "wd3 = snd (DynamoDBGetItem wd2)"
    using assms(8) by (simp add: wd2_def)
  have "DeactivateHandler wd r =
     (Returned, (snd (DynamoDBDeactivate wd3))
        \<lparr>rw := Fprint (rw (snd (DynamoDBDeactivate wd3)))
                 [Text deactivated, JSON (JSON_Item (fst (DynamoDBDeactivate wd3)))]\<rparr>)"
    using assms(1,2) param assms(3) wd2_def
  proof (rule DeactivateHandler_active)
    show "Active (fst (DynamoDBGetItem wd2))" using item assms(7) by simp
    show "wd3 = snd (DynamoDBGetItem wd2)" by (rule wd3)
  qed
  then show ?thesis
    by (simp add: DynamoDBDeactivate_frame wd3 DynamoDBGetItem_frame wd2_def)
qed

text \<open>The update that follows a successful lookup of the row \<open>it\<close> under the key \<open>k\<close>.\<close>

lemma DynamoDBDeactivate_after_get:
  assumes "k \<noteq> []" and "fst (next_fault (ddb wd)) = None"
    and "stored (ddb wd) tn k = Some it"
    and "wd3 = snd (DynamoDBGetItem (wd\<lparr>srv := (srv wd)\<lparr>tableName := tn, index := k\<rparr>\<rparr>))"
  shows "fst (DynamoDBDeactivate wd3) =
      (case fst (next_fault (snd (next_fault (ddb wd)))) of
         None \<Rightarrow> it\<lparr>Active := False\<rparr> | Some e \<Rightarrow> zero_Item)"
    and "stored (ddb (snd (DynamoDBDeactivate wd3))) tn k =
      (case fst (next_fault (snd (next_fault (ddb wd)))) of
         None \<Rightarrow> Some (it\<lparr>Active := False\<rparr>) | Some e \<Rightarrow> Some it)"
    and "calls (ddb (snd (DynamoDBDeactivate wd3))) =
        calls (ddb wd) @
          [GetItemCall \<lparr>GetItemInput.TableName = tn, Key = [(''index'', B k)]\<rparr>,
           UpdateItemCall \<lparr>UpdateItemInput.TableName = tn,
                           Key = [(''index'', B k)],
                           ExpressionAttributeValues = [('':active'', BOOL False)],
                           UpdateExpression = ''set active = :active'',
                           ReturnValues = ''ALL_NEW''\<rparr>]"
    and "faults (ddb (snd (DynamoDBDeactivate wd3))) = tl (tl (faults (ddb wd)))"
proof -
  obtain rows where rows: "map_of (tables (ddb wd)) tn = Some rows"
    and found: "find (\<lambda>it. Index it = k) rows = Some it"
    using assms(3) by (auto simp: stored_def split: option.splits)
  have srv3: "tableName (srv wd3) = tn" "index (srv wd3) = k"
    by (simp_all add: assms(4) DynamoDBGetItem_frame)
  have ddb3: "tables (ddb wd3) = tables (ddb wd)" "calls (ddb wd3) = calls (ddb wd) @
          [GetItemCall \<lparr>GetItemInput.TableName = tn, Key = [(''index'', B k)]\<rparr>]"
    by (simp_all add: assms(4) DynamoDBGetItem_ddb GetItem_tables GetItem_calls)
  have faults3: "faults (ddb wd3) = faults (snd (next_fault (ddb wd)))"
    by (simp add: assms(4) DynamoDBGetItem_ddb GetItem_faults)
  then have next3: "fst (next_fault (ddb wd3)) = fst (next_fault (snd (next_fault (ddb wd))))"
    by (simp add: next_fault_fst)
  show "calls (ddb (snd (DynamoDBDeactivate wd3))) =
        calls (ddb wd) @
          [GetItemCall \<lparr>GetItemInput.TableName = tn, Key = [(''index'', B k)]\<rparr>,
           UpdateItemCall \<lparr>UpdateItemInput.TableName = tn,
                           Key = [(''index'', B k)],
                           ExpressionAttributeValues = [('':active'', BOOL False)],
                           UpdateExpression = ''set active = :active'',
                           ReturnValues = ''ALL_NEW''\<rparr>]"
    by (simp add: DynamoDBDeactivate_calls srv3 ddb3)
  show "faults (ddb (snd (DynamoDBDeactivate wd3))) = tl (tl (faults (ddb wd)))"
    by (simp add: DynamoDBDeactivate_faults faults3)
  have "fst (DynamoDBDeactivate wd3) =
      (case fst (next_fault (snd (next_fault (ddb wd)))) of None \<Rightarrow> it\<lparr>Active := False\<rparr> | Some e \<Rightarrow> zero_Item)
    \<and> stored (ddb (snd (DynamoDBDeactivate wd3))) tn k =
      (case fst (next_fault (snd (next_fault (ddb wd)))) of None \<Rightarrow> Some (it\<lparr>Active := False\<rparr>) | Some e \<Rightarrow> Some it)"
  proof (cases "fst (next_fault (ddb wd3))")
    case None
    have ok: "fst (DynamoDBDeactivate wd3) = it\<lparr>Active := False\<rparr>"
      "tables (ddb (snd (DynamoDBDeactivate wd3))) =
           AList.update tn (update_rows k False rows) (tables (ddb wd))"
      using DynamoDBDeactivate_stored [of wd3 rows it] None assms(1) rows found
      by (simp_all add: srv3 ddb3)
    show ?thesis
      using None ok rows found
      by (simp add: next3 [symmetric] stored_def update_conv' find_update_rows)
  next
    case (Some e)
    from DynamoDBDeactivate_fault [OF Some]
    have f: "fst (DynamoDBDeactivate wd3) = zero_Item"
      "tables (ddb (snd (DynamoDBDeactivate wd3))) = tables (ddb wd)"
      by (simp_all add: ddb3)
    show ?thesis
      using Some f rows found by (simp add: next3 [symmetric] stored_def)
  qed
  then show "fst (DynamoDBDeactivate wd3) =
      (case fst (next_fault (snd (next_fault (ddb wd)))) of
         None \<Rightarrow> it\<lparr>Active := False\<rparr> | Some e \<Rightarrow> zero_Item)"
    and "stored (ddb (snd (DynamoDBDeactivate wd3))) tn k =
      (case fst (next_fault (snd (next_fault (ddb wd)))) of
         None \<Rightarrow> Some (it\<lparr>Active := False\<rparr>) | Some e \<Rightarrow> Some it)"
    by simp_all
qed

text \<open>The result of the handler on the path of an inactive row.\<close>

lemma DeactivateHandler_inactive_row:
  assumes "Path r = ''/deactivate''" and "Method r = ''POST''"
    and "base64_Decode (Get (Query r) ''index'') = Inr k" and "k \<noteq> []"
    and "fst (next_fault (ddb wd)) = None"
    and "stored (ddb wd) (Get (Query r) ''tableName'') k = Some it" and "\<not> Active it"
    and "wd2 = wd\<lparr>srv := (srv wd)\<lparr>tableName := Get (Query r) ''tableName'', index := k\<rparr>\<rparr>"
  shows "DeactivateHandler wd r =
     (Returned, (snd (DynamoDBGetItem wd2))
        \<lparr>rw := Fprint (rw wd) [Text already_inactive, JSON (JSON_Item it)]\<rparr>)"
proof -
  have param: "Get (Query r) ''index'' \<noteq> []"
    using assms(3,4) by (auto simp: base64_Decode_Nil)
  have item: "fst (DynamoDBGetItem wd2) = it"
    using assms(4,5,6) by (simp add: DynamoDBGetItem_fst assms(8) GetItem_stored)
  have "DeactivateHandler wd r =
     (Returned, (snd (DynamoDBGetItem wd2))
        \<lparr>rw := Fprint (rw wd) [Text already_inactive, JSON (JSON_Item (fst (DynamoDBGetItem wd2)))]\<rparr>)"
    using assms(1,2) param assms(3,8)
  proof (rule DeactivateHandler_inactive)
    show "\<not> Active (fst (DynamoDBGetItem wd2))" using item assms(7) by simp
  qed
  then show ?thesis by (simp add: item)
qed

text \<open>
  C5, as stated, where the update fails: row A is active and its lookup succeeds, the
  \<open>UpdateItem\<close> call fails; the handler still answers with the success message, the JSON
  is that of the zero \<open>Item\<close> and not of an updated row, and row A stays active.
\<close>

theorem deactivate_failed_update_counterexample:
  "stored (ddb (ex_world\<lparr>ddb := (ddb ex_world)\<lparr>faults := [None, Some RequestError]\<rparr>\<rparr>)) ''T'' [65] = Some ex_rowA
   \<and> Active ex_rowA
   \<and> body (rw (snd (DeactivateHandler
         (ex_world\<lparr>ddb := (ddb ex_world)\<lparr>faults := [None, Some RequestError]\<rparr>\<rparr>)
         (ex_deactivate ''QQ=='')))) =
       [Text deactivated, JSON (JSON_Item zero_Item)]
   \<and> stored (ddb (snd (DeactivateHandler
         (ex_world\<lparr>ddb := (ddb ex_world)\<lparr>faults := [None, Some RequestError]\<rparr>\<rparr>)
         (ex_deactivate ''QQ==''))))
       ''T'' [65] = Some ex_rowA"
  by (simp add: ex_defs run_defs)

text \<open>
  C5, amended. A deactivate request whose key holds a row with \<open>Active = True\<close>, and whose
  lookup succeeds: the handler returns after exactly one \<open>UpdateItem\<close> call for the key,
  which sets \<open>active\<close> to false; the response is the success message followed by the
  JSON of an item with \<open>Active = False\<close>, status 200. When the update goes through,
  that item is the row after the update, and the table holds it; when the update
  fails, it is the zero \<open>Item\<close> and the row is as before.
\<close>

theorem deactivate_active_item:
  assumes "Path r = ''/deactivate''" and "Method r = ''POST''" and "rw wd = NewResponseWriter"
    and "base64_Decode (Get (Query r) ''index'') = Inr k" and "k \<noteq> []"
    and "fst (next_fault (ddb wd)) = None"
    and "stored (ddb wd) (Get (Query r) ''tableName'') k = Some it" and "Active it"
  shows "fst (DeactivateHandler wd r) = Returned
    \<and> calls (ddb (snd (DeactivateHandler wd r))) =
        calls (ddb wd) @
          [GetItemCall \<lparr>GetItemInput.TableName = Get (Query r) ''tableName'',
                        Key = [(''index'', B k)]\<rparr>,
           UpdateItemCall \<lparr>UpdateItemInput.TableName = Get (Query r) ''tableName'',
                           Key = [(''index'', B k)],
                           ExpressionAttributeValues = [('':active'', BOOL False)],
                           UpdateExpression = ''set active = :active'',
                           ReturnValues = ''ALL_NEW''\<rparr>]
    \<and> body (rw (snd (DeactivateHandler wd r))) =
        [Text deactivated,
         JSON (JSON_Item (case fst (next_fault (snd (next_fault (ddb wd)))) of
                            None \<Rightarrow> it\<lparr>Active := False\<rparr>
                          | Some e \<Rightarrow> zero_Item))]
    \<and> StatusCode (rw (snd (DeactivateHandler wd r))) = 200
    \<and> stored (ddb (snd (DeactivateHandler wd r))) (Get (Query r) ''tableName'') k =
        (case fst (next_fault (snd (next_fault (ddb wd)))) of
           None \<Rightarrow> Some (it\<lparr>Active := False\<rparr>)
         | Some e \<Rightarrow> Some it)"
proof -
  define wd3 where "wd3 = snd (DynamoDBGetItem
     (wd\<lparr>srv := (srv wd)\<lparr>tableName := Get (Query r) ''tableName'', index := k\<rparr>\<rparr>))"
  have result: "DeactivateHandler wd r =
     (Returned, (snd (DynamoDBDeactivate wd3))
        \<lparr>rw := Fprint (rw wd) [Text deactivated, JSON (JSON_Item (fst (DynamoDBDeactivate wd3)))]\<rparr>)"
    using assms(1,2,4,5,6,7,8) wd3_def by (rule DeactivateHandler_active_row)
  show ?thesis
    using DynamoDBDeactivate_after_get [OF assms(5,6,7) wd3_def] assms(3)
    by (simp add: result Fprint_new)
qed

theorem deactivate_active_item_witness:
  "Path (ex_deactivate ''QQ=='') = ''/deactivate'' \<and> Method (ex_deactivate ''QQ=='') = ''POST''
   \<and> base64_Decode (Get (Query (ex_deactivate ''QQ=='')) ''index'') = Inr [65]
   \<and> stored (ddb ex_world) (Get (Query (ex_deactivate ''QQ=='')) ''tableName'') [65] = Some ex_rowA
   \<and> Active ex_rowA
   \<and> body (rw (snd (DeactivateHandler ex_world (ex_deactivate ''QQ=='')))) =
        [Text deactivated, JSON (JSON_Item (ex_rowA\<lparr>Active := False\<rparr>))]
   \<and> stored (ddb (snd (DeactivateHandler ex_world (ex_deactivate ''QQ=='')))) ''T'' [65] =
        Some (ex_rowA\<lparr>Active := False\<rparr>)"
proof -
  have h1: "Path (ex_deactivate ''QQ=='') = ''/deactivate''" by (simp add: ex_defs)
  have h2: "Method (ex_deactivate ''QQ=='') = ''POST''" by (simp add: ex_defs)
  have h3: "rw ex_world = NewResponseWriter" by (simp add: ex_defs)
  have h4: "base64_Decode (Get (Query (ex_deactivate ''QQ=='')) ''index'') = Inr [65]"
    by (simp add: ex_defs)
  have h5: "[65 :: 8 word] \<noteq> []" by simp
  have h6: "fst (next_fault (ddb ex_world)) = None" by (simp add: ex_defs)
  have h7: "stored (ddb ex_world) (Get (Query (ex_deactivate ''QQ=='')) ''tableName'') [65] = Some ex_rowA"
    by (simp add: ex_defs)
  have h8: "Active ex_rowA" by (simp add: ex_defs)
  have f: "fst (next_fault (snd (next_fault (ddb ex_world)))) = None" by (simp add: ex_defs)
  have t: "Get (Query (ex_deactivate ''QQ=='')) ''tableName'' = ''T''" by (simp add: ex_defs)
  from deactivate_active_item [OF h1 h2 h3 h4 h5 h6 h7 h8] h1 h2 h4 h7 h8
  show ?thesis by (simp add: f t)
qed

subsection \<open>The scenario of the specification\<close>

text \<open>
  C1, as stated, at its own input: the index \<open>A\<close> is not base64, so the JSON round trip
  yields no key; the handler panics before any call to the service, row A stays
  active and nothing is written.
\<close>

theorem deactivate_index_A_counterexample:
  "stored (ddb ex_world) ''T'' [65] = Some ex_rowA \<and> Active ex_rowA
   \<and> json_Unmarshal_bytes (JSON_string ''A'') = Inl CorruptInputError
   \<and> fst (serve ex_world (ex_deactivate ''A'')) = Panicked
   \<and> tables (ddb (snd (serve ex_world (ex_deactivate ''A'')))) = tables (ddb ex_world)
   \<and> calls (ddb (snd (serve ex_world (ex_deactivate ''A'')))) = []
   \<and> body (rw (snd (serve ex_world (ex_deactivate ''A'')))) = []"
proof -
  have p: "Path (ex_deactivate ''A'') = ''/deactivate''"
    by (simp add: ex_defs)
  show ?thesis
    unfolding serve_deactivate [OF p]
    by (simp add: ex_defs DeactivateHandler_def json_Marshal_def NewResponseWriter_def Let_def)
qed

text \<open>
  C1, amended. The index is the base64 text of the key (\<open>QQ==\<close> for the key byte
  \<open>0x41\<close>, the letter A). With a row under that key that is active and no fault of the
  service, the first request sets the row to \<open>Active = False\<close> and returns it after the
  success message; the same request again returns the same row after the "already
  inactive" message, makes only the lookup and leaves the tables as they are.
\<close>

theorem deactivate_twice:
  assumes "Path r = ''/deactivate''" and "Method r = ''POST''"
    and "base64_Decode (Get (Query r) ''index'') = Inr k" and "k \<noteq> []"
    and "faults (ddb wd) = []"
    and "stored (ddb wd) (Get (Query r) ''tableName'') k = Some it" and "Active it"
  shows "fst (serve wd r) = Returned
    \<and> body (rw (snd (serve wd r))) = [Text deactivated, JSON (JSON_Item (it\<lparr>Active := False\<rparr>))]
    \<and> stored (ddb (snd (serve wd r))) (Get (Query r) ''tableName'') k = Some (it\<lparr>Active := False\<rparr>)
    \<and> fst (serve (snd (serve wd r)) r) = Returned
    \<and> body (rw (snd (serve (snd (serve wd r)) r))) =
        [Text already_inactive, JSON (JSON_Item (it\<lparr>Active := False\<rparr>))]
    \<and> tables (ddb (snd (serve (snd (serve wd r)) r))) = tables (ddb (snd (serve wd r)))
    \<and> calls (ddb (snd (serve (snd (serve wd r)) r))) =
        calls (ddb (snd (serve wd r))) @
          [GetItemCall \<lparr>GetItemInput.TableName = Get (Query r) ''tableName'',
                        Key = [(''index'', B k)]\<rparr>]"
proof -
  define tn where "tn = Get (Query r) ''tableName''"
  define wd0 where "wd0 = wd\<lparr>rw := NewResponseWriter\<rparr>"
  define wd3 where "wd3 = snd (DynamoDBGetItem (wd0\<lparr>srv := (srv wd0)\<lparr>tableName := tn, index := k\<rparr>\<rparr>))"
  define w1 where "w1 = snd (serve wd r)"
  have ok0: "fst (next_fault (ddb wd0)) = None" "stored (ddb wd0) tn k = Some it"
    using assms(5,6) by (simp_all add: wd0_def next_fault_fst tn_def)
  have first: "serve wd r =
     (Returned, (snd (DynamoDBDeactivate wd3))
        \<lparr>rw := Fprint NewResponseWriter [Text deactivated, JSON (JSON_Item (fst (DynamoDBDeactivate wd3)))]\<rparr>)"
    using DeactivateHandler_active_row [OF assms(1,2,3,4) ok0(1) ok0(2) [unfolded tn_def] assms(7) wd3_def [unfolded tn_def]]
      assms(1)
    by (simp add: serve_deactivate wd0_def)
  have after: "fst (DynamoDBDeactivate wd3) = it\<lparr>Active := False\<rparr>"
    "stored (ddb (snd (DynamoDBDeactivate wd3))) tn k = Some (it\<lparr>Active := False\<rparr>)"
    "faults (ddb (snd (DynamoDBDeactivate wd3))) = []"
    using DynamoDBDeactivate_after_get [OF assms(4) ok0 wd3_def] assms(5)
    by (simp_all add: wd0_def next_fault_fst next_fault_def)
  have w1: "fst (serve wd r) = Returned"
    "body (rw w1) = [Text deactivated, JSON (JSON_Item (it\<lparr>Active := False\<rparr>))]"
    "stored (ddb w1) tn k = Some (it\<lparr>Active := False\<rparr>)"
    "faults (ddb w1) = []"
    by (simp_all add: w1_def first after Fprint_new)
  define w1' where "w1' = w1\<lparr>rw := NewResponseWriter\<rparr>"
  have ok1: "fst (next_fault (ddb w1')) = None" "stored (ddb w1') (Get (Query r) ''tableName'') k = Some (it\<lparr>Active := False\<rparr>)"
    "\<not> Active (it\<lparr>Active := False\<rparr>)"
    using w1(3,4) by (simp_all add: w1'_def next_fault_fst tn_def)
  have second: "serve w1 r =
     (Returned, (snd (DynamoDBGetItem (w1'\<lparr>srv := (srv w1')\<lparr>tableName := Get (Query r) ''tableName'', index := k\<rparr>\<rparr>)))
        \<lparr>rw := Fprint NewResponseWriter [Text already_inactive, JSON (JSON_Item (it\<lparr>Active := False\<rparr>))]\<rparr>)"
    using DeactivateHandler_inactive_row [OF assms(1,2,3,4) ok1 refl] assms(1)
    by (simp add: serve_deactivate w1'_def)
  show ?thesis
    using w1
    by (simp add: w1_def [symmetric] second Fprint_new DynamoDBGetItem_ddb GetItem_tables
        GetItem_calls w1'_def tn_def)
qed

theorem deactivate_twice_witness:
  "Path (ex_deactivate ''QQ=='') = ''/deactivate'' \<and> Method (ex_deactivate ''QQ=='') = ''POST''
   \<and> base64_Decode (Get (Query (ex_deactivate ''QQ=='')) ''index'') = Inr [65]
   \<and> faults (ddb ex_world) = []
   \<and> stored (ddb ex_world) (Get (Query (ex_deactivate ''QQ=='')) ''tableName'') [65] = Some ex_rowA
   \<and> Active ex_rowA
   \<and> body (rw (snd (serve ex_world (ex_deactivate ''QQ=='')))) =
        [Text deactivated, JSON (JSON_Item (ex_rowA\<lparr>Active := False\<rparr>))]
   \<and> body (rw (snd (serve (snd (serve ex_world (ex_deactivate ''QQ==''))) (ex_deactivate ''QQ=='')))) =
        [Text already_inactive, JSON (JSON_Item (ex_rowA\<lparr>Active := False\<rparr>))]
   \<and> tables (ddb (snd (serve (snd (serve ex_world (ex_deactivate ''QQ==''))) (ex_deactivate ''QQ=='')))) =
        tables (ddb (snd (serve ex_world (ex_deactivate ''QQ==''))))"
proof -
  have h1: "Path (ex_deactivate ''QQ=='') = ''/deactivate''" by (simp add: ex_defs)
  have h2: "Method (ex_deactivate ''QQ=='') = ''POST''" by (simp add: ex_defs)
  have h4: "base64_Decode (Get (Query (ex_deactivate ''QQ=='')) ''index'') = Inr [65]"
    by (simp add: ex_defs)
  have h5: "[65 :: 8 word] \<noteq> []" by simp
  have h6: "faults (ddb ex_world) = []" by (simp add: ex_defs)
  have h7: "stored (ddb ex_world) (Get (Query (ex_deactivate ''QQ=='')) ''tableName'') [65] = Some ex_rowA"
    by (simp add: ex_defs)
  have h8: "Active ex_rowA" by (simp add: ex_defs)
  from deactivate_twice [OF h1 h2 h4 h5 h6 h7 h8] h1 h2 h4 h6 h7 h8
  show ?thesis by blast
qed

subsection \<open>Deactivating without an index\<close>

text \<open>
  C9. A POST to \<open>/deactivate\<close> whose \<open>index\<close> parameter is absent or empty: the handler
  returns without any call to the service (the service, and with it its tables and its
  record of calls, is unchanged), logs nothing, and the response is an empty body
  with status 200.
\<close>

theorem deactivate_without_index:
  assumes "Path r = ''/deactivate''" and "Method r = ''POST''" and "rw wd = NewResponseWriter"
    and "Get (Query r) ''index'' = []"
  shows "fst (DeactivateHandler wd r) = Returned
    \<and> ddb (snd (DeactivateHandler wd r)) = ddb wd
    \<and> logrus (snd (DeactivateHandler wd r)) = logrus wd
    \<and> body (rw (snd (DeactivateHandler wd r))) = []
    \<and> StatusCode (rw (snd (DeactivateHandler wd r))) = 200"
  using assms
  by (simp add: DeactivateHandler_def Let_def NewResponseWriter_def StatusCode_def)

theorem deactivate_without_index_witness:
  "Path (ex_request ''POST'' ''/deactivate'' [(''tableName'', ''T'')]) = ''/deactivate''
   \<and> Method (ex_request ''POST'' ''/deactivate'' [(''tableName'', ''T'')]) = ''POST''
   \<and> Get (Query (ex_request ''POST'' ''/deactivate'' [(''tableName'', ''T'')])) ''index'' = []
   \<and> ddb (snd (DeactivateHandler ex_world (ex_request ''POST'' ''/deactivate'' [(''tableName'', ''T'')]))) =
        ddb ex_world
   \<and> body (rw (snd (DeactivateHandler ex_world (ex_request ''POST'' ''/deactivate'' [(''tableName'', ''T'')])))) = []
   \<and> StatusCode (rw (snd (DeactivateHandler ex_world (ex_request ''POST'' ''/deactivate'' [(''tableName'', ''T'')])))) = 200"
proof -
  have h1: "Path (ex_request ''POST'' ''/deactivate'' [(''tableName'', ''T'')]) = ''/deactivate''"
    by (simp add: ex_request_def)
  have h2: "Method (ex_request ''POST'' ''/deactivate'' [(''tableName'', ''T'')]) = ''POST''"
    by (simp add: ex_request_def)
  have h3: "rw ex_world = NewResponseWriter" by (simp add: ex_defs)
  have h4: "Get (Query (ex_request ''POST'' ''/deactivate'' [(''tableName'', ''T'')])) ''index'' = []"
    by (simp add: ex_request_def Get_def)
  from deactivate_without_index [OF h1 h2 h3 h4] h1 h2 h4
  show ?thesis by blast
qed

subsection \<open>Deactivating a key that has no row\<close>

lemma stored_Index: "stored c tn k = Some it \<Longrightarrow> Index it = k"
  by (auto simp: stored_def find_Some_iff split: option.splits)

text \<open>
  C10, as stated, at the key of row B: with row B in the table, inactive, and without
  it, the two responses differ (the JSON of row B against the JSON of the zero \<open>Item\<close>),
  so a key without a row can be told from an inactive row.
\<close>

theorem absent_key_counterexample:
  "stored (ddb (ex_world\<lparr>ddb := (ddb ex_world)\<lparr>tables := [(''T'', [ex_rowA])]\<rparr>\<rparr>)) ''T'' [66] = None
   \<and> stored (ddb ex_world) ''T'' [66] = Some ex_rowB
   \<and> \<not> Active ex_rowB
   \<and> body (rw (snd (DeactivateHandler
         (ex_world\<lparr>ddb := (ddb ex_world)\<lparr>tables := [(''T'', [ex_rowA])]\<rparr>\<rparr>)
         (ex_deactivate ''Qg=='')))) \<noteq>
       body (rw (snd (DeactivateHandler ex_world (ex_deactivate ''Qg==''))))"
  by (simp add: ex_defs run_defs)

text \<open>
  C10, amended. A deactivate request whose key has no row in the table (or whose table
  does not exist): the lookup yields the zero \<open>Item\<close>, whose \<open>Active\<close> is false, so the
  handler takes the path of an inactive item: the only call is the \<open>GetItem\<close>, the
  tables are unchanged, and the response is the "already inactive" message followed by
  the JSON of the zero \<open>Item\<close>, with status 200. For an inactive row under the same key
  the response has the same status and the same message, followed by the JSON of that
  row, which is not the zero \<open>Item\<close>.
\<close>

theorem deactivate_absent_key:
  assumes "Path r = ''/deactivate''" and "Method r = ''POST''" and "rw wd = NewResponseWriter"
    and "Get (Query r) ''index'' \<noteq> []"
    and "base64_Decode (Get (Query r) ''index'') = Inr k"
    and "stored (ddb wd) (Get (Query r) ''tableName'') k = None"
  shows "fst (DeactivateHandler wd r) = Returned
    \<and> tables (ddb (snd (DeactivateHandler wd r))) = tables (ddb wd)
    \<and> calls (ddb (snd (DeactivateHandler wd r))) =
        calls (ddb wd) @
          [GetItemCall \<lparr>GetItemInput.TableName = Get (Query r) ''tableName'',
                        Key = [(''index'', B k)]\<rparr>]
    \<and> body (rw (snd (DeactivateHandler wd r))) = [Text already_inactive, JSON (JSON_Item zero_Item)]
    \<and> StatusCode (rw (snd (DeactivateHandler wd r))) = 200
    \<and> (rw wd' = NewResponseWriter \<and> k \<noteq> [] \<and> fst (next_fault (ddb wd')) = None
        \<and> stored (ddb wd') (Get (Query r) ''tableName'') k = Some it \<and> \<not> Active it \<longrightarrow>
          body (rw (snd (DeactivateHandler wd' r))) = [Text already_inactive, JSON (JSON_Item it)]
        \<and> StatusCode (rw (snd (DeactivateHandler wd' r))) = 200
        \<and> it \<noteq> zero_Item)"
proof -
  define wd2 where "wd2 = wd\<lparr>srv := (srv wd)\<lparr>tableName := Get (Query r) ''tableName'', index := k\<rparr>\<rparr>"
  have item: "fst (DynamoDBGetItem wd2) = zero_Item"
    using assms(6) by (simp add: DynamoDBGetItem_fst wd2_def GetItem_absent)
  have "DeactivateHandler wd r =
     (Returned, (snd (DynamoDBGetItem wd2))
        \<lparr>rw := Fprint (rw wd) [Text already_inactive, JSON (JSON_Item (fst (DynamoDBGetItem wd2)))]\<rparr>)"
    using assms(1,2,4,5) wd2_def
  proof (rule DeactivateHandler_inactive)
    show "\<not> Active (fst (DynamoDBGetItem wd2))" using item by (simp add: zero_Item_def)
  qed
  then have absent: "fst (DeactivateHandler wd r) = Returned
    \<and> tables (ddb (snd (DeactivateHandler wd r))) = tables (ddb wd)
    \<and> calls (ddb (snd (DeactivateHandler wd r))) =
        calls (ddb wd) @
          [GetItemCall \<lparr>GetItemInput.TableName = Get (Query r) ''tableName'',
                        Key = [(''index'', B k)]\<rparr>]
    \<and> body (rw (snd (DeactivateHandler wd r))) = [Text already_inactive, JSON (JSON_Item zero_Item)]
    \<and> StatusCode (rw (snd (DeactivateHandler wd r))) = 200"
    using item assms(3)
    by (simp add: DynamoDBGetItem_ddb GetItem_tables GetItem_calls Fprint_new wd2_def)
  have present: "body (rw (snd (DeactivateHandler wd' r))) = [Text already_inactive, JSON (JSON_Item it)]
        \<and> StatusCode (rw (snd (DeactivateHandler wd' r))) = 200
        \<and> it \<noteq> zero_Item"
    if new: "rw wd' = NewResponseWriter" and key: "k \<noteq> []"
      and ok: "fst (next_fault (ddb wd')) = None"
      and row: "stored (ddb wd') (Get (Query r) ''tableName'') k = Some it" and off: "\<not> Active it"
  proof -
    have "Index it \<noteq> Index zero_Item"
      using stored_Index [OF row] key by (simp add: zero_Item_def)
    then have "it \<noteq> zero_Item" by auto
    then show ?thesis
      using DeactivateHandler_inactive_row [OF assms(1,2,5) key ok row off refl] new
      by (simp add: Fprint_new)
  qed
  show ?thesis
    using absent present by blast
qed

theorem deactivate_absent_key_witness:
  "Path (ex_deactivate ''Qg=='') = ''/deactivate'' \<and> Method (ex_deactivate ''Qg=='') = ''POST''
   \<and> Get (Query (ex_deactivate ''Qg=='')) ''index'' \<noteq> []
   \<and> base64_Decode (Get (Query (ex_deactivate ''Qg=='')) ''index'') = Inr [66]
   \<and> stored (ddb (ex_world\<lparr>ddb := (ddb ex_world)\<lparr>tables := [(''T'', [ex_rowA])]\<rparr>\<rparr>))
        (Get (Query (ex_deactivate ''Qg=='')) ''tableName'') [66] = None
   \<and> stored (ddb ex_world) (Get (Query (ex_deactivate ''Qg=='')) ''tableName'') [66] = Some ex_rowB
   \<and> \<not> Active ex_rowB
   \<and> tables (ddb (snd (DeactivateHandler
        (ex_world\<lparr>ddb := (ddb ex_world)\<lparr>tables := [(''T'', [ex_rowA])]\<rparr>\<rparr>) (ex_deactivate ''Qg==''))))
       = [(''T'', [ex_rowA])]
   \<and> body (rw (snd (DeactivateHandler
        (ex_world\<lparr>ddb := (ddb ex_world)\<lparr>tables := [(''T'', [ex_rowA])]\<rparr>\<rparr>) (ex_deactivate ''Qg==''))))
       = [Text already_inactive, JSON (JSON_Item zero_Item)]
   \<and> StatusCode (rw (snd (DeactivateHandler
        (ex_world\<lparr>ddb := (ddb ex_world)\<lparr>tables := [(''T'', [ex_rowA])]\<rparr>\<rparr>) (ex_deactivate ''Qg==''))))
       = 200
   \<and> body (rw (snd (DeactivateHandler ex_world (ex_deactivate ''Qg==''))))
       = [Text already_inactive, JSON (JSON_Item ex_rowB)]
   \<and> ex_rowB \<noteq> zero_Item"
proof -
  have h1: "Path (ex_deactivate ''Qg=='') = ''/deactivate''" by (simp add: ex_defs)
  have h2: "Method (ex_deactivate ''Qg=='') = ''POST''" by (simp add: ex_defs)
  have h3: "rw (ex_world\<lparr>ddb := (ddb ex_world)\<lparr>tables := [(''T'', [ex_rowA])]\<rparr>\<rparr>) = NewResponseWriter"
    by (simp add: ex_defs)
  have h4: "Get (Query (ex_deactivate ''Qg=='')) ''index'' \<noteq> []" by (simp add: ex_defs)
  have h5: "base64_Decode (Get (Query (ex_deactivate ''Qg=='')) ''index'') = Inr [66]"
    by (simp add: ex_defs)
  have h6: "stored (ddb (ex_world\<lparr>ddb := (ddb ex_world)\<lparr>tables := [(''T'', [ex_rowA])]\<rparr>\<rparr>))
        (Get (Query (ex_deactivate ''Qg=='')) ''tableName'') [66] = None"
    by (simp add: ex_defs)
  have g1: "rw ex_world = NewResponseWriter" by (simp add: ex_defs)
  have g2: "[66 :: 8 word] \<noteq> []" by simp
  have g3: "fst (next_fault (ddb ex_world)) = None" by (simp add: ex_defs)
  have g4: "stored (ddb ex_world) (Get (Query (ex_deactivate ''Qg=='')) ''tableName'') [66] = Some ex_rowB"
    by (simp add: ex_defs)
  have g5: "\<not> Active ex_rowB" by (simp add: ex_defs)
  have t: "tables (ddb (ex_world\<lparr>ddb := (ddb ex_world)\<lparr>tables := [(''T'', [ex_rowA])]\<rparr>\<rparr>)) = [(''T'', [ex_rowA])]"
    by simp
  from deactivate_absent_key [OF h1 h2 h3 h4 h5 h6, of ex_world ex_rowB] h1 h2 h4 h5 h6 g1 g2 g3 g4 g5 t
  show ?thesis by simp
qed

subsection \<open>Listing\<close>

lemma logged_frame:
  "ddb (case x of None \<Rightarrow> w | Some e \<Rightarrow> logrus_Error m e w) = ddb w"
  "srv (case x of None \<Rightarrow> w | Some e \<Rightarrow> logrus_Error m e w) = srv w"
  "rw (case x of None \<Rightarrow> w | Some e \<Rightarrow> logrus_Error m e w) = rw w"
  by (cases x; simp add: logrus_Error_def)+

lemma DynamoDBList_ddb:
  assumes "input = \<lparr>ScanInput.TableName = tableName (srv wd),
        FilterExpression = None, ProjectionExpression = None\<rparr>"
  shows "ddb (snd (DynamoDBList wd)) = snd (Scan (ddb wd) input)"
  by (cases "snd (fst (Scan (ddb wd) input))")
     (simp_all add: assms DynamoDBList_def UnmarshalListOfMaps_def logrus_Error_def Let_def
       case_prod_beta)

lemma DynamoDBList_frame:
  "rw (snd (DynamoDBList wd)) = rw wd" "srv (snd (DynamoDBList wd)) = srv wd"
  by (cases "snd (fst (Scan (ddb wd) \<lparr>ScanInput.TableName = tableName (srv wd),
        FilterExpression = None, ProjectionExpression = None\<rparr>))";
      simp add: DynamoDBList_def UnmarshalListOfMaps_def logrus_Error_def Let_def case_prod_beta)+

text \<open>The query, for the server fields that the list handler sets.\<close>

lemma DynamoDBQuery_set:
  assumes "active (srv wd) = False"
    and "status (srv wd) = [] \<or> status (srv wd) = ''active'' \<or> status (srv wd) = ''inactive''"
    and "name (srv wd) \<noteq> [] \<or> status (srv wd) \<noteq> []"
    and "params = \<lparr>ScanInput.TableName = tableName (srv wd),
        FilterExpression = spec_predicate (name (srv wd)) (status (srv wd)),
        ProjectionExpression = Some [''index'', ''name'', ''users'', ''active'']\<rparr>"
  shows "ddb (snd (DynamoDBQuery wd)) = snd (Scan (ddb wd) params)"
    and "rw (snd (DynamoDBQuery wd)) = rw wd"
    and "fst (fst (DynamoDBQuery wd)) = Some (Items (fst (fst (Scan (ddb wd) params))))"
    and "logrus (snd (DynamoDBQuery wd)) =
           logrus wd @ (case snd (fst (Scan (ddb wd) params)) of
                          None \<Rightarrow> [] | Some e \<Rightarrow> [(''Query API call failed'', e)])"
proof -
  consider (a) "name (srv wd) \<noteq> []" "status (srv wd) = ''active''"
    | (b) "name (srv wd) \<noteq> []" "status (srv wd) = ''inactive''"
    | (c) "name (srv wd) \<noteq> []" "status (srv wd) = []"
    | (d) "name (srv wd) = []" "status (srv wd) = ''active''"
    | (e) "name (srv wd) = []" "status (srv wd) = ''inactive''"
    using assms(2,3) by auto
  then have "ddb (snd (DynamoDBQuery wd)) = snd (Scan (ddb wd) params)
    \<and> rw (snd (DynamoDBQuery wd)) = rw wd
    \<and> fst (fst (DynamoDBQuery wd)) = Some (Items (fst (fst (Scan (ddb wd) params))))
    \<and> logrus (snd (DynamoDBQuery wd)) =
           logrus wd @ (case snd (fst (Scan (ddb wd) params)) of
                          None \<Rightarrow> [] | Some e \<Rightarrow> [(''Query API call failed'', e)])"
  proof cases
    case a
    then show ?thesis
      using assms(1)
      by (cases "snd (fst (Scan (ddb wd) params))")
         (simp_all add: DynamoDBQuery_def UnmarshalListOfMaps_def logrus_Error_def Let_def
           case_prod_beta Build_def spec_predicate_def valid_status_def assms(4))
  next
    case b
    then show ?thesis
      using assms(1)
      by (cases "snd (fst (Scan (ddb wd) params))")
         (simp_all add: DynamoDBQuery_def UnmarshalListOfMaps_def logrus_Error_def Let_def
           case_prod_beta Build_def spec_predicate_def valid_status_def assms(4))
  next
    case c
    then show ?thesis
      using assms(1)
      by (cases "snd (fst (Scan (ddb wd) params))")
         (simp_all add: DynamoDBQuery_def UnmarshalListOfMaps_def logrus_Error_def Let_def
           case_prod_beta Build_def spec_predicate_def valid_status_def assms(4))
  next
    case d
    then show ?thesis
      using assms(1)
      by (cases "snd (fst (Scan (ddb wd) params))")
         (simp_all add: DynamoDBQuery_def UnmarshalListOfMaps_def logrus_Error_def Let_def
           case_prod_beta Build_def spec_predicate_def valid_status_def assms(4))
  next
    case e
    then show ?thesis
      using assms(1)
      by (cases "snd (fst (Scan (ddb wd) params))")
         (simp_all add: DynamoDBQuery_def UnmarshalListOfMaps_def logrus_Error_def Let_def
           case_prod_beta Build_def spec_predicate_def valid_status_def assms(4))
  qed
  then show "ddb (snd (DynamoDBQuery wd)) = snd (Scan (ddb wd) params)"
    and "rw (snd (DynamoDBQuery wd)) = rw wd"
    and "fst (fst (DynamoDBQuery wd)) = Some (Items (fst (fst (Scan (ddb wd) params))))"
    and "logrus (snd (DynamoDBQuery wd)) =
           logrus wd @ (case snd (fst (Scan (ddb wd) params)) of
                          None \<Rightarrow> [] | Some e \<Rightarrow> [(''Query API call failed'', e)])"
    by simp_all
qed


lemma DynamoDBList_result:
  assumes "input = \<lparr>ScanInput.TableName = tableName (srv wd),
        FilterExpression = None, ProjectionExpression = None\<rparr>"
  shows "fst (fst (DynamoDBList wd)) =
           (case snd (fst (Scan (ddb wd) input)) of
              None \<Rightarrow> Some (Items (fst (fst (Scan (ddb wd) input)))) | Some e \<Rightarrow> None)"
    and "logrus (snd (DynamoDBList wd)) =
           logrus wd @ (case snd (fst (Scan (ddb wd) input)) of
                          None \<Rightarrow> [] | Some e \<Rightarrow> [(''Failed to scan DynamoDB'', e)])"
  by (cases "snd (fst (Scan (ddb wd) input))";
      simp add: assms DynamoDBList_def UnmarshalListOfMaps_def logrus_Error_def Let_def
        case_prod_beta)+

lemma spec_predicate_None: "spec_predicate nm st = None \<longleftrightarrow> nm = [] \<and> \<not> valid_status st"
  by (simp add: spec_predicate_def)

lemma spec_predicate_status:
  "spec_predicate nm (if valid_status st then st else []) = spec_predicate nm st"
  by (simp add: spec_predicate_def valid_status_def)

text \<open>What the list handler does with a GET of \<open>/list\<close>.\<close>

lemma ListHandler_steps:
  assumes "Path r = ''/list''" and "Method r = ''GET''"
    and "wd1 = wd\<lparr>srv := (srv wd)\<lparr>tableName := Get (Query r) ''tableName'',
           name := Get (Query r) ''name'',
           status := (if valid_status (Get (Query r) ''status'') then Get (Query r) ''status'' else []),
           active := False\<rparr>\<rparr>"
  shows "ListHandler wd r =
     (let res = (if spec_predicate (Get (Query r) ''name'') (Get (Query r) ''status'') = None
                 then DynamoDBList wd1 else DynamoDBQuery wd1)
      in (Returned, (snd res)\<lparr>rw := Fprint (rw (snd res)) [JSON (JSON_Items (fst (fst res)))]\<rparr>))"
proof -
  obtain a b c d e f g where srv: "srv wd =
      \<lparr>Server.Name = a, ASess = b, tableName = c, name = d, status = e, active = f, index = g\<rparr>"
    by (cases "srv wd") simp
  consider (act) "Get (Query r) ''status'' = ''active''"
    | (inact) "Get (Query r) ''status'' = ''inactive''"
    | (other) "\<not> valid_status (Get (Query r) ''status'')"
    by (auto simp: valid_status_def)
  then show ?thesis
  proof cases
    case act
    then show ?thesis
      using assms
      by (cases "Get (Query r) ''name'' = []")
         (simp_all add: ListHandler_def json_MarshalIndent_Items_def Let_def case_prod_beta
           spec_predicate_None valid_status_def srv)
  next
    case inact
    then show ?thesis
      using assms
      by (cases "Get (Query r) ''name'' = []")
         (simp_all add: ListHandler_def json_MarshalIndent_Items_def Let_def case_prod_beta
           spec_predicate_None valid_status_def srv)
  next
    case other
    then show ?thesis
      using assms
      by (cases "Get (Query r) ''name'' = []")
         (simp_all add: ListHandler_def json_MarshalIndent_Items_def Let_def case_prod_beta
           spec_predicate_None valid_status_def srv)
  qed
qed

lemma ListHandler_result:
  assumes "Path r = ''/list''" and "Method r = ''GET''"
  shows "fst (ListHandler wd r) = Returned"
    and "ddb (snd (ListHandler wd r)) = snd (Scan (ddb wd) (spec_scan r))"
    and "rw (snd (ListHandler wd r)) =
           Fprint (rw wd)
             [JSON (JSON_Items
                (case snd (fst (Scan (ddb wd) (spec_scan r))) of
                   None \<Rightarrow> Some (Items (fst (fst (Scan (ddb wd) (spec_scan r)))))
                 | Some e \<Rightarrow>
                     if FilterExpression (spec_scan r) = None then None
                     else Some (Items (fst (fst (Scan (ddb wd) (spec_scan r)))))))]"
    and "logrus (snd (ListHandler wd r)) =
           logrus wd @
             (case snd (fst (Scan (ddb wd) (spec_scan r))) of
                None \<Rightarrow> []
              | Some e \<Rightarrow>
                  [(if FilterExpression (spec_scan r) = None then ''Failed to scan DynamoDB''
                    else ''Query API call failed'', e)])"
proof -
  define nm where "nm = Get (Query r) ''name''"
  define st where "st = Get (Query r) ''status''"
  define wd1 where "wd1 = wd\<lparr>srv := (srv wd)\<lparr>tableName := Get (Query r) ''tableName'',
           name := nm, status := (if valid_status st then st else []), active := False\<rparr>\<rparr>"
  have steps: "ListHandler wd r =
     (let res = (if spec_predicate nm st = None then DynamoDBList wd1 else DynamoDBQuery wd1)
      in (Returned, (snd res)\<lparr>rw := Fprint (rw (snd res)) [JSON (JSON_Items (fst (fst res)))]\<rparr>))"
    using ListHandler_steps [OF assms, of wd1 wd] by (simp add: wd1_def nm_def st_def)
  have base: "ddb wd1 = ddb wd" "rw wd1 = rw wd" "logrus wd1 = logrus wd"
    by (simp_all add: wd1_def)
  have "fst (ListHandler wd r) = Returned
    \<and> ddb (snd (ListHandler wd r)) = snd (Scan (ddb wd) (spec_scan r))
    \<and> rw (snd (ListHandler wd r)) =
           Fprint (rw wd)
             [JSON (JSON_Items
                (case snd (fst (Scan (ddb wd) (spec_scan r))) of
                   None \<Rightarrow> Some (Items (fst (fst (Scan (ddb wd) (spec_scan r)))))
                 | Some e \<Rightarrow>
                     if FilterExpression (spec_scan r) = None then None
                     else Some (Items (fst (fst (Scan (ddb wd) (spec_scan r)))))))]
    \<and> logrus (snd (ListHandler wd r)) =
           logrus wd @
             (case snd (fst (Scan (ddb wd) (spec_scan r))) of
                None \<Rightarrow> []
              | Some e \<Rightarrow>
                  [(if FilterExpression (spec_scan r) = None then ''Failed to scan DynamoDB''
                    else ''Query API call failed'', e)])"
  proof (cases "spec_predicate nm st = None")
    case True
    have scan: "spec_scan r = \<lparr>ScanInput.TableName = tableName (srv wd1),
        FilterExpression = None, ProjectionExpression = None\<rparr>"
      using True by (simp add: spec_scan_def nm_def st_def wd1_def)
    have flt: "FilterExpression (spec_scan r) = None"
      by (simp add: scan)
    show ?thesis
      using True flt DynamoDBList_result [OF scan] DynamoDBList_ddb [OF scan]
        DynamoDBList_frame [of wd1]
      by (cases "snd (fst (Scan (ddb wd) (spec_scan r)))") (simp_all add: steps base)
  next
    case False
    then obtain c where c: "spec_predicate nm st = Some c" by auto
    have "spec_predicate (name (srv wd1)) (status (srv wd1)) = spec_predicate nm st"
      by (simp add: wd1_def spec_predicate_status del: if_split cong: if_cong)
    then have scan: "spec_scan r = \<lparr>ScanInput.TableName = tableName (srv wd1),
        FilterExpression = spec_predicate (name (srv wd1)) (status (srv wd1)),
        ProjectionExpression = Some [''index'', ''name'', ''users'', ''active'']\<rparr>"
      using c by (simp add: spec_scan_def nm_def st_def) (simp add: wd1_def)
    have pre: "active (srv wd1) = False"
      "status (srv wd1) = [] \<or> status (srv wd1) = ''active'' \<or> status (srv wd1) = ''inactive''"
      "name (srv wd1) \<noteq> [] \<or> status (srv wd1) \<noteq> []"
      using False by (auto simp: wd1_def valid_status_def spec_predicate_None)
    have flt: "FilterExpression (spec_scan r) = Some c"
      using c by (simp add: spec_scan_def nm_def st_def)
    show ?thesis
      using c flt DynamoDBQuery_set [OF pre scan]
      by (cases "snd (fst (Scan (ddb wd) (spec_scan r)))") (simp_all add: steps base)
  qed
  then show "fst (ListHandler wd r) = Returned"
    and "ddb (snd (ListHandler wd r)) = snd (Scan (ddb wd) (spec_scan r))"
    and "rw (snd (ListHandler wd r)) =
           Fprint (rw wd)
             [JSON (JSON_Items
                (case snd (fst (Scan (ddb wd) (spec_scan r))) of
                   None \<Rightarrow> Some (Items (fst (fst (Scan (ddb wd) (spec_scan r)))))
                 | Some e \<Rightarrow>
                     if FilterExpression (spec_scan r) = None then None
                     else Some (Items (fst (fst (Scan (ddb wd) (spec_scan r)))))))]"
    and "logrus (snd (ListHandler wd r)) =
           logrus wd @
             (case snd (fst (Scan (ddb wd) (spec_scan r))) of
                None \<Rightarrow> []
              | Some e \<Rightarrow>
                  [(if FilterExpression (spec_scan r) = None then ''Failed to scan DynamoDB''
                    else ''Query API call failed'', e)])"
    by simp_all
qed


lemma matches_spec_predicate:
  "matches (spec_predicate nm st) it \<longleftrightarrow>
     (nm = [] \<or> Item.Name it = nm) \<and> (\<not> valid_status st \<or> Active it = (st = ''active''))"
  by (auto simp: matches_def spec_predicate_def attribute_def)

text \<open>
  C2. For every GET of \<open>/list\<close> the one call to the service is the scan of the
  specification: its filter is the predicate of section 4.2 for the name and status
  parameters (name and active status, name only, active status only), and with neither
  parameter present it is the scan of the whole table without filter and projection.
\<close>

theorem list_scan_predicate:
  assumes "Path r = ''/list''" and "Method r = ''GET''"
  shows "calls (ddb (snd (ListHandler wd r))) = calls (ddb wd) @ [ScanCall (spec_scan r)]
    \<and> ddb (snd (ListHandler wd r)) = snd (Scan (ddb wd) (spec_scan r))"
  using ListHandler_result(2) [OF assms, of wd] by (simp add: Scan_calls)

theorem list_scan_predicate_witness:
  "Path (ex_request ''GET'' ''/list'' [(''tableName'', ''T''), (''name'', ''foo''), (''status'', ''inactive'')]) = ''/list''
   \<and> Method (ex_request ''GET'' ''/list'' [(''tableName'', ''T''), (''name'', ''foo''), (''status'', ''inactive'')]) = ''GET''
   \<and> calls (ddb (snd (ListHandler ex_world
         (ex_request ''GET'' ''/list'' [(''tableName'', ''T''), (''name'', ''foo''), (''status'', ''inactive'')])))) =
       [ScanCall \<lparr>ScanInput.TableName = ''T'',
          FilterExpression = Some (And (Equal ''name'' (S ''foo'')) (Equal ''active'' (BOOL False))),
          ProjectionExpression = Some [''index'', ''name'', ''users'', ''active'']\<rparr>]"
proof -
  have h1: "Path (ex_request ''GET'' ''/list'' [(''tableName'', ''T''), (''name'', ''foo''), (''status'', ''inactive'')]) = ''/list''"
    by (simp add: ex_request_def)
  have h2: "Method (ex_request ''GET'' ''/list'' [(''tableName'', ''T''), (''name'', ''foo''), (''status'', ''inactive'')]) = ''GET''"
    by (simp add: ex_request_def)
  have s: "spec_scan (ex_request ''GET'' ''/list'' [(''tableName'', ''T''), (''name'', ''foo''), (''status'', ''inactive'')]) =
      \<lparr>ScanInput.TableName = ''T'',
          FilterExpression = Some (And (Equal ''name'' (S ''foo'')) (Equal ''active'' (BOOL False))),
          ProjectionExpression = Some [''index'', ''name'', ''users'', ''active'']\<rparr>"
    by (simp add: spec_scan_def spec_predicate_def valid_status_def ex_request_def Get_def)
  have c: "calls (ddb ex_world) = []" by (simp add: ex_world_def)
  from list_scan_predicate [OF h1 h2, of ex_world] h1 h2
  show ?thesis by (simp add: s c Scan_calls)
qed

lemma Get_filter:
  "Get (filter (\<lambda>p. fst p \<noteq> k) q) k' = (if k' = k then [] else Get q k')"
  by (induction q) (auto simp: Get_def)

text \<open>
  C3. A status parameter that is neither \<open>active\<close> nor \<open>inactive\<close> is treated as absent:
  the handler does exactly what it does for the request without the status parameter,
  it returns with status 200, and its scan has no condition on \<open>active\<close>: the name
  alone if there is one, and no filter at all (the whole table) otherwise.
\<close>

theorem list_invalid_status_ignored:
  assumes "Path r = ''/list''" and "Method r = ''GET''" and "rw wd = NewResponseWriter"
    and "Get (Query r) ''status'' \<noteq> ''active''" and "Get (Query r) ''status'' \<noteq> ''inactive''"
  shows "ListHandler wd r = ListHandler wd (r\<lparr>Query := filter (\<lambda>p. fst p \<noteq> ''status'') (Query r)\<rparr>)
    \<and> fst (ListHandler wd r) = Returned
    \<and> StatusCode (rw (snd (ListHandler wd r))) = 200
    \<and> calls (ddb (snd (ListHandler wd r))) =
        calls (ddb wd) @
          [ScanCall \<lparr>ScanInput.TableName = Get (Query r) ''tableName'',
             FilterExpression =
               (if Get (Query r) ''name'' = [] then None
                else Some (Equal ''name'' (S (Get (Query r) ''name'')))),
             ProjectionExpression =
               (if Get (Query r) ''name'' = [] then None
                else Some [''index'', ''name'', ''users'', ''active''])\<rparr>]"
proof -
  have same: "ListHandler wd r = ListHandler wd (r\<lparr>Query := filter (\<lambda>p. fst p \<noteq> ''status'') (Query r)\<rparr>)"
    using assms(4,5) by (simp add: ListHandler_def Get_filter)
  have scan: "spec_scan r =
      \<lparr>ScanInput.TableName = Get (Query r) ''tableName'',
             FilterExpression =
               (if Get (Query r) ''name'' = [] then None
                else Some (Equal ''name'' (S (Get (Query r) ''name'')))),
             ProjectionExpression =
               (if Get (Query r) ''name'' = [] then None
                else Some [''index'', ''name'', ''users'', ''active''])\<rparr>"
    using assms(4,5) by (simp add: spec_scan_def spec_predicate_def valid_status_def)
  have "calls (ddb (snd (ListHandler wd r))) = calls (ddb wd) @ [ScanCall (spec_scan r)]"
    using ListHandler_result(2) [OF assms(1,2), of wd] by (simp add: Scan_calls)
  then show ?thesis
    using same ListHandler_result(1,3) [OF assms(1,2), of wd] assms(3)
    by (simp add: scan Fprint_new)
qed

theorem list_invalid_status_ignored_witness:
  "Path (ex_request ''GET'' ''/list'' [(''tableName'', ''T''), (''status'', ''all'')]) = ''/list''
   \<and> Method (ex_request ''GET'' ''/list'' [(''tableName'', ''T''), (''status'', ''all'')]) = ''GET''
   \<and> Get (Query (ex_request ''GET'' ''/list'' [(''tableName'', ''T''), (''status'', ''all'')])) ''status'' = ''all''
   \<and> StatusCode (rw (snd (ListHandler ex_world
         (ex_request ''GET'' ''/list'' [(''tableName'', ''T''), (''status'', ''all'')])))) = 200
   \<and> calls (ddb (snd (ListHandler ex_world
         (ex_request ''GET'' ''/list'' [(''tableName'', ''T''), (''status'', ''all'')])))) =
       [ScanCall \<lparr>ScanInput.TableName = ''T'', FilterExpression = None,
          ProjectionExpression = None\<rparr>]"
proof -
  have h1: "Path (ex_request ''GET'' ''/list'' [(''tableName'', ''T''), (''status'', ''all'')]) = ''/list''"
    by (simp add: ex_request_def)
  have h2: "Method (ex_request ''GET'' ''/list'' [(''tableName'', ''T''), (''status'', ''all'')]) = ''GET''"
    by (simp add: ex_request_def)
  have h3: "rw ex_world = NewResponseWriter" by (simp add: ex_world_def)
  have g: "Get (Query (ex_request ''GET'' ''/list'' [(''tableName'', ''T''), (''status'', ''all'')])) ''status'' = ''all''"
    "Get (Query (ex_request ''GET'' ''/list'' [(''tableName'', ''T''), (''status'', ''all'')])) ''name'' = []"
    "Get (Query (ex_request ''GET'' ''/list'' [(''tableName'', ''T''), (''status'', ''all'')])) ''tableName'' = ''T''"
    by (simp_all add: ex_request_def Get_def)
  have h4: "Get (Query (ex_request ''GET'' ''/list'' [(''tableName'', ''T''), (''status'', ''all'')])) ''status'' \<noteq> ''active''"
    by (simp add: g)
  have h5: "Get (Query (ex_request ''GET'' ''/list'' [(''tableName'', ''T''), (''status'', ''all'')])) ''status'' \<noteq> ''inactive''"
    by (simp add: g)
  have c: "calls (ddb ex_world) = []" by (simp add: ex_world_def)
  note t = list_invalid_status_ignored [OF h1 h2 h3 h4 h5, THEN conjunct2, THEN conjunct2]
  from t h1 h2 g(1)
  show ?thesis by (simp add: g c)
qed

text \<open>
  C6. When the scan of a \<open>/list\<close> request fails (a fault of the service, or a table that
  does not exist), the handler logs the error and returns normally: the status is 200
  and the body renders what the scan function returned, \<open>null\<close> for the nil slice of
  the unfiltered path and \<open>[]\<close> for the empty slice of the filtered one; the tables are
  unchanged.
\<close>

theorem list_store_error:
  assumes "Path r = ''/list''" and "Method r = ''GET''" and "rw wd = NewResponseWriter"
    and "service_error (ddb wd) (Get (Query r) ''tableName'') = Some e"
  shows "fst (ListHandler wd r) = Returned
    \<and> StatusCode (rw (snd (ListHandler wd r))) = 200
    \<and> body (rw (snd (ListHandler wd r))) =
        [JSON (JSON_Items
           (if spec_predicate (Get (Query r) ''name'') (Get (Query r) ''status'') = None
            then None else Some []))]
    \<and> logrus (snd (ListHandler wd r)) =
        logrus wd @
          [(if spec_predicate (Get (Query r) ''name'') (Get (Query r) ''status'') = None
            then ''Failed to scan DynamoDB'' else ''Query API call failed'', e)]
    \<and> tables (ddb (snd (ListHandler wd r))) = tables (ddb wd)"
proof -
  have tn: "ScanInput.TableName (spec_scan r) = Get (Query r) ''tableName''"
    and flt: "FilterExpression (spec_scan r) =
      spec_predicate (Get (Query r) ''name'') (Get (Query r) ''status'')"
    by (simp_all add: spec_scan_def Let_def)
  have err: "snd (fst (Scan (ddb wd) (spec_scan r))) = Some e"
    using assms(4) by (simp add: Scan_error tn)
  then have items: "Items (fst (fst (Scan (ddb wd) (spec_scan r)))) = []"
    by (rule Scan_error_Items)
  show ?thesis
    using ListHandler_result [OF assms(1,2), of wd] assms(3)
    by (simp add: err items flt Fprint_new Scan_tables)
qed

theorem list_store_error_witness:
  "Path (ex_request ''GET'' ''/list'' [(''tableName'', ''U''), (''status'', ''active'')]) = ''/list''
   \<and> Method (ex_request ''GET'' ''/list'' [(''tableName'', ''U''), (''status'', ''active'')]) = ''GET''
   \<and> service_error (ddb ex_world)
        (Get (Query (ex_request ''GET'' ''/list'' [(''tableName'', ''U''), (''status'', ''active'')])) ''tableName'')
       = Some ResourceNotFoundException
   \<and> fst (ListHandler ex_world
         (ex_request ''GET'' ''/list'' [(''tableName'', ''U''), (''status'', ''active'')])) = Returned
   \<and> StatusCode (rw (snd (ListHandler ex_world
         (ex_request ''GET'' ''/list'' [(''tableName'', ''U''), (''status'', ''active'')])))) = 200
   \<and> body (rw (snd (ListHandler ex_world
         (ex_request ''GET'' ''/list'' [(''tableName'', ''U''), (''status'', ''active'')])))) =
        [JSON (JSON_Items (Some []))]
   \<and> logrus (snd (ListHandler ex_world
         (ex_request ''GET'' ''/list'' [(''tableName'', ''U''), (''status'', ''active'')]))) =
        [(''Query API call failed'', ResourceNotFoundException)]"
proof -
  have h1: "Path (ex_request ''GET'' ''/list'' [(''tableName'', ''U''), (''status'', ''active'')]) = ''/list''"
    by (simp add: ex_request_def)
  have h2: "Method (ex_request ''GET'' ''/list'' [(''tableName'', ''U''), (''status'', ''active'')]) = ''GET''"
    by (simp add: ex_request_def)
  have h3: "rw ex_world = NewResponseWriter" by (simp add: ex_world_def)
  have h4: "service_error (ddb ex_world)
        (Get (Query (ex_request ''GET'' ''/list'' [(''tableName'', ''U''), (''status'', ''active'')])) ''tableName'')
       = Some ResourceNotFoundException"
    by (simp add: service_error_def ex_defs)
  have p: "spec_predicate
      (Get (Query (ex_request ''GET'' ''/list'' [(''tableName'', ''U''), (''status'', ''active'')])) ''name'')
      (Get (Query (ex_request ''GET'' ''/list'' [(''tableName'', ''U''), (''status'', ''active'')])) ''status'')
      \<noteq> None"
    by (simp add: spec_predicate_def valid_status_def ex_request_def Get_def)
  have l: "logrus ex_world = []" by (simp add: ex_world_def)
  from list_store_error [OF h1 h2 h3 h4] h1 h2 h4
  show ?thesis by (simp add: p l)
qed

subsection \<open>Requests that match no handler\<close>


text \<open>The guards of the two handlers.\<close>

lemma ListHandler_guard:
  "Path r \<noteq> ''/list'' \<Longrightarrow>
     ListHandler wd r = (Returned, wd\<lparr>rw := http_Error (rw wd) ''404 not found.'' 404\<rparr>)"
  "Path r = ''/list'' \<Longrightarrow> Method r \<noteq> ''GET'' \<Longrightarrow>
     ListHandler wd r =
       (Returned, wd\<lparr>rw := http_Error (rw wd) ''404 not found, method not supported.'' 404\<rparr>)"
  by (simp_all add: ListHandler_def)

lemma DeactivateHandler_guard:
  "Path r \<noteq> ''/deactivate'' \<Longrightarrow>
     DeactivateHandler wd r = (Returned, wd\<lparr>rw := http_Error (rw wd) ''404 not found.'' 404\<rparr>)"
  "Path r = ''/deactivate'' \<Longrightarrow> Method r \<noteq> ''POST'' \<Longrightarrow>
     DeactivateHandler wd r =
       (Returned, wd\<lparr>rw := http_Error (rw wd) ''404 not found, method not supported.'' 404\<rparr>)"
  by (simp_all add: DeactivateHandler_def)

text \<open>A request that the mux looks up as it is: every CONNECT, and every path in cleaned form.\<close>

lemma serve_handler:
  "Method r = ''CONNECT'' \<or> cleanPath (Path r) = Path r \<Longrightarrow>
     serve wd r = handler (Path r) (wd\<lparr>rw := NewResponseWriter\<rparr>) r"
  by (auto simp: serve_def Let_def)





subsection \<open>The fields of the shared server\<close>

lemma DynamoDBQuery_srv_eq:
  "srv (snd (DynamoDBQuery wd)) =
     (if status (srv wd) = ''active'' then (srv wd)\<lparr>active := True\<rparr>
      else if status (srv wd) = ''inactive'' then (srv wd)\<lparr>active := False\<rparr>
      else srv wd)"
  by (simp add: DynamoDBQuery_def UnmarshalListOfMaps_def Let_def case_prod_beta logged_frame)

text \<open>The server that a handler leaves behind.\<close>

lemma ListHandler_srv_eq:
  assumes "Path r = ''/list''" and "Method r = ''GET''"
  shows "srv (snd (ListHandler w r)) =
     (srv w)\<lparr>tableName := Get (Query r) ''tableName'', name := Get (Query r) ''name'',
              status := (if valid_status (Get (Query r) ''status'') then Get (Query r) ''status'' else []),
              active := (Get (Query r) ''status'' = ''active'')\<rparr>"
proof -
  obtain a b c d e f g where srv: "srv w =
      \<lparr>Server.Name = a, ASess = b, tableName = c, name = d, status = e, active = f, index = g\<rparr>"
    by (cases "srv w") simp
  consider (act) "Get (Query r) ''status'' = ''active''"
    | (inact) "Get (Query r) ''status'' = ''inactive''"
    | (other) "\<not> valid_status (Get (Query r) ''status'')"
    by (auto simp: valid_status_def)
  then show ?thesis
  proof cases
    case act
    then show ?thesis
      using ListHandler_steps [OF assms refl, of w]
      by (simp add: Let_def spec_predicate_None valid_status_def DynamoDBQuery_srv_eq srv)
  next
    case inact
    then show ?thesis
      using ListHandler_steps [OF assms refl, of w]
      by (simp add: Let_def spec_predicate_None valid_status_def DynamoDBQuery_srv_eq srv)
  next
    case other
    then have "Get (Query r) ''status'' \<noteq> ''active''" "Get (Query r) ''status'' \<noteq> ''inactive''"
      by (simp_all add: valid_status_def)
    with other show ?thesis
      using ListHandler_steps [OF assms refl, of w]
      by (cases "Get (Query r) ''name'' = []")
         (simp_all add: Let_def spec_predicate_None DynamoDBQuery_srv_eq DynamoDBList_frame srv)
  qed
qed

lemma DynamoDBQuery_srv:
  "Server.Name (srv (snd (DynamoDBQuery wd))) = Server.Name (srv wd)"
  "ASess (srv (snd (DynamoDBQuery wd))) = ASess (srv wd)"
  "tableName (srv (snd (DynamoDBQuery wd))) = tableName (srv wd)"
  "name (srv (snd (DynamoDBQuery wd))) = name (srv wd)"
  by (simp_all add: DynamoDBQuery_def UnmarshalListOfMaps_def Let_def case_prod_beta logged_frame)

text \<open>
  The lookup and the update read the table name and the index of the server, and no
  other of its fields.
\<close>

lemma DynamoDBGetItem_agree:
  assumes "ddb w = ddb w'" and "rw w = rw w'" and "logrus w = logrus w'"
    and "tableName (srv w) = tableName (srv w')" and "index (srv w) = index (srv w')"
  shows "fst (DynamoDBGetItem w) = fst (DynamoDBGetItem w')"
    and "ddb (snd (DynamoDBGetItem w)) = ddb (snd (DynamoDBGetItem w'))"
    and "logrus (snd (DynamoDBGetItem w)) = logrus (snd (DynamoDBGetItem w'))"
  using assms
  by (simp_all add: DynamoDBGetItem_def UnmarshalMap_def logrus_Error_def Let_def case_prod_beta
      split: option.splits)

lemma DynamoDBDeactivate_agree:
  assumes "ddb w = ddb w'" and "rw w = rw w'" and "logrus w = logrus w'"
    and "tableName (srv w) = tableName (srv w')" and "index (srv w) = index (srv w')"
  shows "fst (DynamoDBDeactivate w) = fst (DynamoDBDeactivate w')"
    and "ddb (snd (DynamoDBDeactivate w)) = ddb (snd (DynamoDBDeactivate w'))"
    and "logrus (snd (DynamoDBDeactivate w)) = logrus (snd (DynamoDBDeactivate w'))"
  using assms
  by (simp_all add: DynamoDBDeactivate_def UnmarshalMap_def logrus_Error_def Let_def case_prod_beta
      split: option.splits)


text \<open>
  What a handler does with a request (its outcome, the response, the service and the
  log) does not depend on the server fields it finds; the server keeps its \<open>Name\<close> and
  its session.
\<close>

lemma DeactivateHandler_agree:
  assumes "ddb w = ddb w'" and "rw w = rw w'" and "logrus w = logrus w'"
  shows "fst (DeactivateHandler w r) = fst (DeactivateHandler w' r)
    \<and> ddb (snd (DeactivateHandler w r)) = ddb (snd (DeactivateHandler w' r))
    \<and> rw (snd (DeactivateHandler w r)) = rw (snd (DeactivateHandler w' r))
    \<and> logrus (snd (DeactivateHandler w r)) = logrus (snd (DeactivateHandler w' r))"
proof (cases "Path r = ''/deactivate'' \<and> Method r = ''POST''")
  case False
  then show ?thesis
    using assms by (auto simp: DeactivateHandler_def)
next
  case True
  then have pth: "Path r = ''/deactivate''" and meth: "Method r = ''POST''"
    by simp_all
  show ?thesis
  proof (cases "Get (Query r) ''index'' = []")
    case True
    then show ?thesis
      using assms pth meth by (simp add: DeactivateHandler_def Let_def)
  next
    case par: False
    show ?thesis
    proof (cases "base64_Decode (Get (Query r) ''index'')")
      case (Inl e)
      then show ?thesis
        using assms pth meth par
        by (simp add: DeactivateHandler_def json_Marshal_def Let_def)
    next
      case (Inr k)
      define w2 where "w2 = w\<lparr>srv := (srv w)\<lparr>tableName := Get (Query r) ''tableName'', index := k\<rparr>\<rparr>"
      define w2' where "w2' = w'\<lparr>srv := (srv w')\<lparr>tableName := Get (Query r) ''tableName'', index := k\<rparr>\<rparr>"
      have eq2: "ddb w2 = ddb w2'" "rw w2 = rw w2'" "logrus w2 = logrus w2'"
        "tableName (srv w2) = tableName (srv w2')" "index (srv w2) = index (srv w2')"
        using assms by (simp_all add: w2_def w2'_def)
      note get = DynamoDBGetItem_agree [OF eq2]
      show ?thesis
      proof (cases "Active (fst (DynamoDBGetItem w2))")
        case False
        then have False': "\<not> Active (fst (DynamoDBGetItem w2'))"
          using get(1) by simp
        show ?thesis
          using DeactivateHandler_inactive [OF pth meth par Inr w2_def False]
            DeactivateHandler_inactive [OF pth meth par Inr w2'_def False'] get assms(2)
          by simp
      next
        case True
        then have True': "Active (fst (DynamoDBGetItem w2'))"
          using get(1) by simp
        define w3 where "w3 = snd (DynamoDBGetItem w2)"
        define w3' where "w3' = snd (DynamoDBGetItem w2')"
        have eq3: "ddb w3 = ddb w3'" "rw w3 = rw w3'" "logrus w3 = logrus w3'"
          "tableName (srv w3) = tableName (srv w3')" "index (srv w3) = index (srv w3')"
          using get eq2 by (simp_all add: w3_def w3'_def DynamoDBGetItem_frame)
        show ?thesis
          using DeactivateHandler_active [OF pth meth par Inr w2_def True w3_def]
            DeactivateHandler_active [OF pth meth par Inr w2'_def True' w3'_def]
            DynamoDBDeactivate_agree [OF eq3] eq3(2)
          by (simp add: DynamoDBDeactivate_frame)
      qed
    qed
  qed
qed

lemma ListHandler_agree:
  assumes "ddb w = ddb w'" and "rw w = rw w'" and "logrus w = logrus w'"
  shows "fst (ListHandler w r) = fst (ListHandler w' r)
    \<and> ddb (snd (ListHandler w r)) = ddb (snd (ListHandler w' r))
    \<and> rw (snd (ListHandler w r)) = rw (snd (ListHandler w' r))
    \<and> logrus (snd (ListHandler w r)) = logrus (snd (ListHandler w' r))"
proof (cases "Path r = ''/list'' \<and> Method r = ''GET''")
  case False
  then show ?thesis
    using assms by (auto simp: ListHandler_def)
next
  case True
  then have pth: "Path r = ''/list''" and meth: "Method r = ''GET''"
    by simp_all
  show ?thesis
    using ListHandler_result [OF pth meth, of w, unfolded assms]
      ListHandler_result [OF pth meth, of w']
    by simp
qed

lemma DeactivateHandler_srv_eq:
  assumes "Path r = ''/deactivate''" and "Method r = ''POST''"
  shows "srv (snd (DeactivateHandler w r)) =
     (srv w)\<lparr>tableName := Get (Query r) ''tableName'',
              index := (case base64_Decode (Get (Query r) ''index'') of Inl e \<Rightarrow> [] | Inr k \<Rightarrow> k)\<rparr>"
proof (cases "Get (Query r) ''index'' = []")
  case True
  then show ?thesis
    using assms by (simp add: DeactivateHandler_def Let_def base64_Decode_Nil)
next
  case par: False
  show ?thesis
  proof (cases "base64_Decode (Get (Query r) ''index'')")
    case (Inl e)
    then show ?thesis
      using assms par
      by (simp add: DeactivateHandler_def json_Marshal_def Let_def)
  next
    case (Inr k)
    define w2 where "w2 = w\<lparr>srv := (srv w)\<lparr>tableName := Get (Query r) ''tableName'', index := k\<rparr>\<rparr>"
    show ?thesis
    proof (cases "Active (fst (DynamoDBGetItem w2))")
      case False
      show ?thesis
        using DeactivateHandler_inactive [OF assms par Inr w2_def False] Inr
        by (simp add: DynamoDBGetItem_frame w2_def)
    next
      case True
      show ?thesis
        using DeactivateHandler_active [OF assms par Inr w2_def True refl] Inr
        by (simp add: DynamoDBDeactivate_frame DynamoDBGetItem_frame w2_def)
    qed
  qed
qed

lemma handler_agree:
  assumes "ddb w = ddb w'" and "rw w = rw w'" and "logrus w = logrus w'"
  shows "fst (handler p w r) = fst (handler p w' r)
    \<and> ddb (snd (handler p w r)) = ddb (snd (handler p w' r))
    \<and> rw (snd (handler p w r)) = rw (snd (handler p w' r))
    \<and> logrus (snd (handler p w r)) = logrus (snd (handler p w' r))"
  using ListHandler_agree [OF assms, of r] DeactivateHandler_agree [OF assms, of r] assms
  by (simp add: handler_def)

lemma handler_srv:
  "srv (snd (handler (Path r) w r)) =
     (if Path r = ''/list'' \<and> Method r = ''GET'' then
        (srv w)\<lparr>tableName := Get (Query r) ''tableName'', name := Get (Query r) ''name'',
                 status := (if valid_status (Get (Query r) ''status'') then Get (Query r) ''status'' else []),
                 active := (Get (Query r) ''status'' = ''active'')\<rparr>
      else if Path r = ''/deactivate'' \<and> Method r = ''POST'' then
        (srv w)\<lparr>tableName := Get (Query r) ''tableName'',
                 index := (case base64_Decode (Get (Query r) ''index'') of Inl e \<Rightarrow> [] | Inr k \<Rightarrow> k)\<rparr>
      else srv w)"
proof -
  consider (list) "Path r = ''/list''" "Method r = ''GET''"
    | (nolist) "Path r = ''/list''" "Method r \<noteq> ''GET''"
    | (deactivate) "Path r = ''/deactivate''" "Method r = ''POST''"
    | (nodeactivate) "Path r = ''/deactivate''" "Method r \<noteq> ''POST''"
    | (other) "Path r \<noteq> ''/list''" "Path r \<noteq> ''/deactivate''"
    by blast
  then show ?thesis
  proof cases
    case list
    then show ?thesis
      by (simp add: handler_def ListHandler_srv_eq del: if_split cong: if_cong)
  next
    case nolist
    then show ?thesis
      by (simp add: handler_def ListHandler_guard)
  next
    case deactivate
    then show ?thesis
      by (simp add: handler_def DeactivateHandler_srv_eq)
  next
    case nodeactivate
    then show ?thesis
      by (simp add: handler_def DeactivateHandler_guard)
  next
    case other
    then show ?thesis
      by (simp add: handler_def)
  qed
qed

text \<open>
  C7, as stated, at a GET of \<open>/list\<close>: the handler writes the table name and the name
  filter of the request into the \<open>Server\<close> that main shares between all requests, so
  the server after the request is not the server before it.
\<close>

theorem server_fields_counterexample:
  "tableName (srv ex_world) = []
   \<and> tableName (srv (snd (serve ex_world
        (ex_request ''GET'' ''/list'' [(''tableName'', ''T''), (''name'', ''foo'')])))) = ''T''
   \<and> name (srv (snd (serve ex_world
        (ex_request ''GET'' ''/list'' [(''tableName'', ''T''), (''name'', ''foo'')])))) = ''foo''
   \<and> srv (snd (serve ex_world
        (ex_request ''GET'' ''/list'' [(''tableName'', ''T''), (''name'', ''foo'')]))) \<noteq> srv ex_world"
proof -
  have h1: "Path (ex_request ''GET'' ''/list'' [(''tableName'', ''T''), (''name'', ''foo'')]) = ''/list''"
    and h2: "Method (ex_request ''GET'' ''/list'' [(''tableName'', ''T''), (''name'', ''foo'')]) = ''GET''"
    by (simp_all add: ex_request_def)
  have p: "spec_predicate
     (Get (Query (ex_request ''GET'' ''/list'' [(''tableName'', ''T''), (''name'', ''foo'')])) ''name'')
     (Get (Query (ex_request ''GET'' ''/list'' [(''tableName'', ''T''), (''name'', ''foo'')])) ''status'')
     \<noteq> None"
    by (simp add: spec_predicate_def ex_request_def Get_def)
  have t: "tableName (srv (snd (serve ex_world
        (ex_request ''GET'' ''/list'' [(''tableName'', ''T''), (''name'', ''foo'')])))) = ''T''"
    and n: "name (srv (snd (serve ex_world
        (ex_request ''GET'' ''/list'' [(''tableName'', ''T''), (''name'', ''foo'')])))) = ''foo''"
    using ListHandler_steps [OF h1 h2 refl, of "ex_world\<lparr>rw := NewResponseWriter\<rparr>"] p
    by (simp_all add: serve_list [OF h1] Let_def DynamoDBQuery_srv, simp_all add: ex_request_def Get_def)
  have e: "tableName (srv ex_world) = []"
    by (simp add: ex_world_def)
  from t e have "srv (snd (serve ex_world
        (ex_request ''GET'' ''/list'' [(''tableName'', ''T''), (''name'', ''foo'')]))) \<noteq> srv ex_world"
    by auto
  with t n e show ?thesis by simp
qed

text \<open>
  C7, amended. Handling a request overwrites the request fields of the shared server
  with what the request carries: a GET of \<open>/list\<close> stores the table name, the name
  filter, the status (when it is \<open>active\<close> or \<open>inactive\<close>, and the empty string
  otherwise) and whether the status is \<open>active\<close>; a POST to \<open>/deactivate\<close> stores the
  table name and the key decoded from the index (the empty key when there is no index
  or it does not decode). Every other field, \<open>Name\<close> and the session \<open>ASess\<close> among them,
  stays as it is, and every other request leaves the server unchanged. The outcome,
  the response, the service and the log of a request are the same whatever the
  server was before it.
\<close>

theorem server_fields_frame:
  "srv (snd (ServeHTTP wd r)) =
     (if RequestURI r \<noteq> ''*'' \<and> Path r = ''/list'' \<and> Method r = ''GET'' then
        (srv wd)\<lparr>tableName := Get (Query r) ''tableName'', name := Get (Query r) ''name'',
                  status := (if valid_status (Get (Query r) ''status'') then Get (Query r) ''status'' else []),
                  active := (Get (Query r) ''status'' = ''active'')\<rparr>
      else if RequestURI r \<noteq> ''*'' \<and> Path r = ''/deactivate'' \<and> Method r = ''POST'' then
        (srv wd)\<lparr>tableName := Get (Query r) ''tableName'',
                  index := (case base64_Decode (Get (Query r) ''index'') of Inl e \<Rightarrow> [] | Inr k \<Rightarrow> k)\<rparr>
      else srv wd)
   \<and> Server.Name (srv (snd (ServeHTTP wd r))) = Server.Name (srv wd)
   \<and> ASess (srv (snd (ServeHTTP wd r))) = ASess (srv wd)
   \<and> fst (ServeHTTP (wd\<lparr>srv := s\<rparr>) r) = fst (ServeHTTP wd r)
   \<and> rw (snd (ServeHTTP (wd\<lparr>srv := s\<rparr>) r)) = rw (snd (ServeHTTP wd r))
   \<and> ddb (snd (ServeHTTP (wd\<lparr>srv := s\<rparr>) r)) = ddb (snd (ServeHTTP wd r))
   \<and> logrus (snd (ServeHTTP (wd\<lparr>srv := s\<rparr>) r)) = logrus (snd (ServeHTTP wd r))"
proof -
  define w where "w = wd\<lparr>rw := NewResponseWriter\<rparr>"
  define w' where "w' = wd\<lparr>srv := s, rw := NewResponseWriter\<rparr>"
  define after where "after =
     (if RequestURI r \<noteq> ''*'' \<and> Path r = ''/list'' \<and> Method r = ''GET'' then
        (srv wd)\<lparr>tableName := Get (Query r) ''tableName'', name := Get (Query r) ''name'',
                  status := (if valid_status (Get (Query r) ''status'') then Get (Query r) ''status'' else []),
                  active := (Get (Query r) ''status'' = ''active'')\<rparr>
      else if RequestURI r \<noteq> ''*'' \<and> Path r = ''/deactivate'' \<and> Method r = ''POST'' then
        (srv wd)\<lparr>tableName := Get (Query r) ''tableName'',
                  index := (case base64_Decode (Get (Query r) ''index'') of Inl e \<Rightarrow> [] | Inr k \<Rightarrow> k)\<rparr>
      else srv wd)"
  have eq: "ddb w' = ddb w" "rw w' = rw w" "logrus w' = logrus w"
    by (simp_all add: w_def w'_def)
  have s: "srv w = srv wd" by (simp add: w_def)
  have names: "Server.Name after = Server.Name (srv wd)" "ASess after = ASess (srv wd)"
    by (simp_all add: after_def)
  consider (star) "RequestURI r = ''*''"
    | (lookup) "RequestURI r \<noteq> ''*''" "Method r = ''CONNECT'' \<or> cleanPath (Path r) = Path r"
    | (redirect) "RequestURI r \<noteq> ''*''" "Method r \<noteq> ''CONNECT''" "cleanPath (Path r) \<noteq> Path r"
    by blast
  then have "srv (snd (ServeHTTP wd r)) = after
   \<and> fst (ServeHTTP (wd\<lparr>srv := s\<rparr>) r) = fst (ServeHTTP wd r)
   \<and> rw (snd (ServeHTTP (wd\<lparr>srv := s\<rparr>) r)) = rw (snd (ServeHTTP wd r))
   \<and> ddb (snd (ServeHTTP (wd\<lparr>srv := s\<rparr>) r)) = ddb (snd (ServeHTTP wd r))
   \<and> logrus (snd (ServeHTTP (wd\<lparr>srv := s\<rparr>) r)) = logrus (snd (ServeHTTP wd r))"
  proof cases
    case star
    then show ?thesis
      by (simp add: ServeHTTP_def after_def)
  next
    case lookup
    have run: "ServeHTTP wd r = handler (Path r) w r" "ServeHTTP (wd\<lparr>srv := s\<rparr>) r = handler (Path r) w' r"
      using lookup by (simp_all add: ServeHTTP_def serve_handler w_def w'_def)
    have "srv (snd (handler (Path r) w r)) = after"
      using lookup(1) by (simp add: handler_srv s after_def del: if_split cong: if_cong)
    then show ?thesis
      using handler_agree [OF eq, of "Path r" r] by (simp add: run)
  next
    case redirect
    then have "Path r \<noteq> ''/list''" "Path r \<noteq> ''/deactivate''"
      using cleanPath_registered by auto
    with redirect show ?thesis
      by (simp add: ServeHTTP_def serve_def Let_def after_def)
  qed
  then show ?thesis
    using names by (simp add: after_def [symmetric])
qed


theorem server_fields_frame_witness:
  "RequestURI (ex_request ''GET'' ''/list'' [(''tableName'', ''T''), (''name'', ''foo''), (''status'', ''active'')]) \<noteq> ''*''
   \<and> Path (ex_request ''GET'' ''/list'' [(''tableName'', ''T''), (''name'', ''foo''), (''status'', ''active'')]) = ''/list''
   \<and> Method (ex_request ''GET'' ''/list'' [(''tableName'', ''T''), (''name'', ''foo''), (''status'', ''active'')]) = ''GET''
   \<and> srv (snd (ServeHTTP ex_world
        (ex_request ''GET'' ''/list'' [(''tableName'', ''T''), (''name'', ''foo''), (''status'', ''active'')]))) =
       (srv ex_world)\<lparr>tableName := ''T'', name := ''foo'', status := ''active'', active := True\<rparr>
   \<and> rw (snd (ServeHTTP
        (ex_world\<lparr>srv := (srv ex_world)\<lparr>tableName := ''U'', name := ''bar'', status := ''inactive'', active := True, index := [1]\<rparr>\<rparr>)
        (ex_request ''GET'' ''/list'' [(''tableName'', ''T''), (''name'', ''foo''), (''status'', ''active'')])))
       = rw (snd (ServeHTTP ex_world
        (ex_request ''GET'' ''/list'' [(''tableName'', ''T''), (''name'', ''foo''), (''status'', ''active'')])))
   \<and> RequestURI (ex_deactivate ''QQ=='') \<noteq> ''*''
   \<and> Path (ex_deactivate ''QQ=='') = ''/deactivate''
   \<and> Method (ex_deactivate ''QQ=='') = ''POST''
   \<and> srv (snd (ServeHTTP ex_world (ex_deactivate ''QQ==''))) =
       (srv ex_world)\<lparr>tableName := ''T'', index := [65]\<rparr>"
proof -
  have a: "RequestURI (ex_request ''GET'' ''/list'' [(''tableName'', ''T''), (''name'', ''foo''), (''status'', ''active'')]) \<noteq> ''*''"
    "Path (ex_request ''GET'' ''/list'' [(''tableName'', ''T''), (''name'', ''foo''), (''status'', ''active'')]) = ''/list''"
    "Method (ex_request ''GET'' ''/list'' [(''tableName'', ''T''), (''name'', ''foo''), (''status'', ''active'')]) = ''GET''"
    by (simp_all add: ex_request_def ex_target_def)
  have g: "Get (Query (ex_request ''GET'' ''/list'' [(''tableName'', ''T''), (''name'', ''foo''), (''status'', ''active'')])) ''tableName'' = ''T''"
    "Get (Query (ex_request ''GET'' ''/list'' [(''tableName'', ''T''), (''name'', ''foo''), (''status'', ''active'')])) ''name'' = ''foo''"
    "Get (Query (ex_request ''GET'' ''/list'' [(''tableName'', ''T''), (''name'', ''foo''), (''status'', ''active'')])) ''status'' = ''active''"
    by (simp_all add: ex_request_def Get_def)
  have b: "RequestURI (ex_deactivate ''QQ=='') \<noteq> ''*''"
    "Path (ex_deactivate ''QQ=='') = ''/deactivate''"
    "Method (ex_deactivate ''QQ=='') = ''POST''"
    by (simp_all add: ex_deactivate_def ex_request_def ex_target_def)
  have d: "Get (Query (ex_deactivate ''QQ=='')) ''tableName'' = ''T''"
    "base64_Decode (Get (Query (ex_deactivate ''QQ=='')) ''index'') = Inr [65]"
    by (simp_all add: ex_defs)
  note t1 = server_fields_frame [of ex_world
      "ex_request ''GET'' ''/list'' [(''tableName'', ''T''), (''name'', ''foo''), (''status'', ''active'')]"
      "(srv ex_world)\<lparr>tableName := ''U'', name := ''bar'', status := ''inactive'', active := True, index := [1]\<rparr>"]
  note t2 = server_fields_frame [of ex_world "ex_deactivate ''QQ==''" "srv ex_world", THEN conjunct1]
  have s1: "srv (snd (ServeHTTP ex_world
        (ex_request ''GET'' ''/list'' [(''tableName'', ''T''), (''name'', ''foo''), (''status'', ''active'')]))) =
       (srv ex_world)\<lparr>tableName := ''T'', name := ''foo'', status := ''active'', active := True\<rparr>"
    using t1 [THEN conjunct1] a by (simp add: g valid_status_def)
  have s2: "srv (snd (ServeHTTP ex_world (ex_deactivate ''QQ==''))) =
       (srv ex_world)\<lparr>tableName := ''T'', index := [65]\<rparr>"
    using t2 b by (simp add: d)
  from t1 a b s1 s2 show ?thesis by blast
qed

end
